theory Spec2Isabelle
  imports Main "HOL-Library.Word" "HOL-Library.Sublist"
begin

section \<open>The fault-injection file system of utilities/fault\_injection\_fs.cc\<close>

text \<open>
  A shallow embedding of \<^verbatim>\<open>utilities/fault_injection_fs.cc\<close>. Every member function
  becomes a function on explicit state: the state of a writable-file wrapper, the state of
  the \<^verbatim>\<open>FaultInjectionTestFS\<close> facade, and, where a caller-owned buffer is written, a
  store of bytes. A C++ exception (\<^verbatim>\<open>std::out_of_range\<close>), a failed \<^verbatim>\<open>assert\<close> and
  an access outside an object are the left summand of the returned sum. What the wrapped file system and its file objects answer is not fixed by this
  file: each function takes those answers as arguments, and records the calls it makes to
  them in a history, in the order the source makes them.
\<close>

subsection \<open>Strings\<close>

datatype exn = OutOfRange | AssertionFailure | UndefinedBehaviour

text \<open>\<^verbatim>\<open>std::string::find_last_of\<close>: the last index holding one of the given characters;
  \<open>None\<close> is \<^verbatim>\<open>npos\<close>.\<close>

primrec find_last_of :: "string \<Rightarrow> string \<Rightarrow> nat option" where
  "find_last_of [] cs = None"
| "find_last_of (c # s) cs =
     (case find_last_of s cs of
        Some i \<Rightarrow> Some (Suc i)
      | None \<Rightarrow> if c \<in> set cs then Some 0 else None)"

text \<open>\<^verbatim>\<open>std::string::find_last_not_of\<close>.\<close>

primrec find_last_not_of :: "string \<Rightarrow> string \<Rightarrow> nat option" where
  "find_last_not_of [] cs = None"
| "find_last_not_of (c # s) cs =
     (case find_last_not_of s cs of
        Some i \<Rightarrow> Some (Suc i)
      | None \<Rightarrow> if c \<notin> set cs then Some 0 else None)"

text \<open>\<^verbatim>\<open>s.substr(pos)\<close> throws \<^verbatim>\<open>std::out_of_range\<close> when \<^verbatim>\<open>pos > s.size()\<close>;
  \<^verbatim>\<open>s.substr(0, n)\<close> never throws.\<close>

definition substr :: "string \<Rightarrow> nat \<Rightarrow> exn + string" where
  "substr s pos = (if pos > length s then Inl OutOfRange else Inr (drop pos s))"

definition substr0 :: "string \<Rightarrow> nat \<Rightarrow> string" where
  "substr0 s n = take n s"

definition path_separators :: string where
  "path_separators = [CHR ''/'', CHR 0x5C]"

definition kNewFileNoOverwrite :: string where
  "kNewFileNoOverwrite = []"

definition TestFSGetDirName :: "string \<Rightarrow> string" where
  "TestFSGetDirName filename =
     (case find_last_of filename path_separators of
        None \<Rightarrow> []
      | Some found \<Rightarrow> substr0 filename found)"

definition TestFSTrimDirname :: "string \<Rightarrow> string" where
  "TestFSTrimDirname str =
     (case find_last_not_of str ''/'' of
        None \<Rightarrow> str
      | Some found \<Rightarrow> substr0 str (found + 1))"

definition TestFSGetDirAndName :: "string \<Rightarrow> exn + (string \<times> string)" where
  "TestFSGetDirAndName name =
     (let dirname = TestFSGetDirName name in
      case substr name (length dirname + 1) of
        Inl e \<Rightarrow> Inl e
      | Inr fname \<Rightarrow> Inr (dirname, fname))"

text \<open>The path that \<^verbatim>\<open>DeleteFilesCreatedAfterLastDirSync\<close> builds from a key of the outer
  map and a key of the inner map: \<^verbatim>\<open>pair.first + "/" + file_pair.first\<close>.\<close>

definition new_file_path :: "string \<Rightarrow> string \<Rightarrow> string" where
  "new_file_path dir fname = dir @ ''/'' @ fname"

subsection \<open>Status values\<close>

datatype Code = kOk | kNotFound | kCorruption | kNotSupported | kInvalidArgument | kIOError

datatype IOStatus = IOStatus (code: Code) (message: string)

definition ok :: "IOStatus \<Rightarrow> bool" where
  "ok s \<longleftrightarrow> code s = kOk"

definition IsNotFound :: "IOStatus \<Rightarrow> bool" where
  "IsNotFound s \<longleftrightarrow> code s = kNotFound"

definition OK :: IOStatus where
  "OK = IOStatus kOk []"

definition IOError :: "string \<Rightarrow> IOStatus" where
  "IOError m = IOStatus kIOError m"

definition Corruption :: "string \<Rightarrow> IOStatus" where
  "Corruption m = IOStatus kCorruption m"

subsection \<open>Collaborators that this file only calls\<close>

text \<open>Modelled from the spec: \<^verbatim>\<open>Random\<close> (util/random.h) is not part of this file. A
  generator is the sequence of its future raw draws; \<^verbatim>\<open>Uniform(n)\<close> reduces the next draw
  modulo \<open>n\<close>, and \<^verbatim>\<open>OneIn(n)\<close>, the Bernoulli draw "inject with probability 1/N", is
  true when that value is 0. Each call consumes one draw.\<close>

type_synonym Random = "nat \<Rightarrow> nat"

definition Uniform :: "Random \<Rightarrow> nat \<Rightarrow> nat \<times> Random" where
  "Uniform rnd n = (rnd 0 mod n, \<lambda>i. rnd (Suc i))"

definition OneIn :: "Random \<Rightarrow> nat \<Rightarrow> bool \<times> Random" where
  "OneIn rnd n = (fst (Uniform rnd n) = 0, snd (Uniform rnd n))"

datatype ChecksumType = kNoChecksum | kCRC32c | kxxHash | kxxHash64 | kXXH3

datatype FileType = kWalFile | kDBLockFile | kTableFile | kDescriptorFile | kCurrentFile
  | kTempFile | kInfoLogFile | kMetaDatabase | kIdentityFile | kOptionsFile | kBlobFile

text \<open>The checksum primitives and the file-name parser are defined elsewhere; the functions
  below take them as a parameter.\<close>

record primitives =
  crc32c_Extend :: "32 word \<Rightarrow> string \<Rightarrow> 32 word"
  XXH32 :: "string \<Rightarrow> 32 word \<Rightarrow> 32 word"
  ParseFileName :: "string \<Rightarrow> (nat \<times> FileType) option"

text \<open>Modelled from the spec: \<^verbatim>\<open>PutFixed32\<close> (util/coding.h) appends the
  little-endian fixed-32 encoding of its argument.\<close>

definition PutFixed32 :: "string \<Rightarrow> 32 word \<Rightarrow> string" where
  "PutFixed32 dst v =
     dst @ map (\<lambda>i. char_of (unat (drop_bit (8 * i) v))) [0, 1, 2, 3]"

definition CalculateTypedChecksum :: "primitives \<Rightarrow> ChecksumType \<Rightarrow> string \<Rightarrow> string \<Rightarrow> string" where
  "CalculateTypedChecksum P checksum_type data checksum =
     (if checksum_type = kCRC32c then PutFixed32 checksum (crc32c_Extend P 0 data)
      else if checksum_type = kxxHash then PutFixed32 checksum (XXH32 P data 0)
      else checksum)"

subsection \<open>The state of one writable file\<close>

text \<open>Modelled from the spec: the declaration of \<^verbatim>\<open>FSFileState\<close> (the header) is not part
  of this file. Its fields are the ones this file reads and writes; the three positions are
  signed, with \<open>-1\<close> for "never", which the constructor stores in all three.\<close>

record FSFileState =
  filename :: string
  pos :: int
  pos_at_last_sync :: int
  pos_at_last_flush :: int
  buffer :: string

definition FSFileState_new :: "string \<Rightarrow> FSFileState" where
  "FSFileState_new fname =
     \<lparr>filename = fname, pos = -1, pos_at_last_sync = -1, pos_at_last_flush = -1, buffer = []\<rparr>"

text \<open>Modelled from the spec: \<open>IsFullySynced \<Leftrightarrow> buffer.empty \<and> pos_at_last_sync == pos\<close>.\<close>

definition IsFullySynced :: "FSFileState \<Rightarrow> bool" where
  "IsFullySynced st \<longleftrightarrow> buffer st = [] \<and> pos_at_last_sync st = pos st"

definition DropUnsyncedData :: "FSFileState \<Rightarrow> IOStatus \<times> FSFileState" where
  "DropUnsyncedData st = (OK, st\<lparr>buffer := []\<rparr>)"

text \<open>\<^verbatim>\<open>range\<close> is \<^verbatim>\<open>static_cast<int>(buffer_.size())\<close>: the size read through the 32-bit
  two's complement, so a buffer of \<open>2^31\<close> bytes or more gives a range that is negative, zero
  or too small.\<close>

definition DropRandomUnsyncedData :: "Random \<Rightarrow> FSFileState \<Rightarrow> IOStatus \<times> FSFileState \<times> Random" where
  "DropRandomUnsyncedData rand st =
     (let range = sint (word_of_nat (length (buffer st)) :: 32 word) in
      if range > 0 then
        (let (truncated_size, rand') = Uniform rand (nat range)
         in (OK, st\<lparr>buffer := take truncated_size (buffer st)\<rparr>, rand'))
      else (OK, st, rand))"

subsection \<open>The facade\<close>

datatype ErrorOperation = kRead | kMultiReadSingleReq | kMultiRead | kOpen

text \<open>One call of \<^verbatim>\<open>InjectThreadSpecificReadError\<close>: its operation, its
  \<^verbatim>\<open>need_count_increase\<close> argument, and the flag it leaves in \<^verbatim>\<open>fault_injected\<close>.\<close>

record injection_call =
  call_op :: ErrorOperation
  call_need_count_increase :: bool
  call_fault_injected :: bool

text \<open>Modelled from the spec: the thread-local \<^verbatim>\<open>ErrorContext\<close> is declared in the header.
  The captured call stack is not modelled.\<close>

record ErrorContext =
  rand :: Random
  enable_error_injection :: bool
  one_in :: nat
  count :: nat
  ctx_message :: string

text \<open>The calls that reach the wrapped file system, in the order they are made.\<close>

datatype fs_call =
    FS_NewDirectory string
  | FS_NewWritableFile string
  | FS_ReopenWritableFile string
  | FS_NewRandomRWFile string
  | FS_NewRandomAccessFile string
  | FS_NewSequentialFile string
  | FS_FileExists string
  | FS_GetFileSize string
  | FS_ReadFileToString string
  | FS_WriteStringToFile string string
  | FS_DeleteFile string
  | FS_RenameFile string string
  | FS_LinkFile string string
  | FS_Poll
  | FS_AbortIO

text \<open>The fields of \<^verbatim>\<open>FaultInjectionTestFS\<close> that this file uses, directly or through the
  accessors of the header. \<open>thread_local_error\<close> is the calling thread's context
  (\<open>None\<close> is the null pointer) and \<open>tls_random\<close> the calling thread's
  \<^verbatim>\<open>Random::GetTLSInstance()\<close>; \<open>fs_calls\<close> is the history of calls to the wrapped
  file system and \<open>read_injection_calls\<close> the history of calls of
  \<^verbatim>\<open>InjectThreadSpecificReadError\<close>. The two histories are not fields of the class: they
  record what the member functions do, and nothing reads them.\<close>

record FaultInjectionTestFS =
  db_file_state :: "string \<rightharpoonup> FSFileState"
  dir_to_new_files_since_last_sync :: "string \<rightharpoonup> (string \<rightharpoonup> string)"
  open_managed_files :: "string set"
  filesystem_active :: bool
  error :: IOStatus
  enable_write_error_injection :: bool
  enable_metadata_write_error_injection :: bool
  write_error_rand :: Random
  write_error_one_in :: nat
  metadata_write_error_one_in :: nat
  read_error_one_in :: nat
  inject_for_all_file_types :: bool
  write_error_allowed_types :: "FileType list"
  ingest_data_corruption_before_write :: bool
  checksum_handoff_func_type :: ChecksumType
  fail_get_file_unique_id :: bool
  thread_local_error :: "ErrorContext option"
  tls_random :: Random
  fs_calls :: "fs_call list"
  read_injection_calls :: "injection_call list"

text \<open>Modelled from the spec: the accessors of the header. The active flag gates the
  operations and \<open>error\<close> is the sticky error returned while it is cleared; clearing the
  flag stores the error that comes with it, setting it stores nothing.\<close>

definition IsFilesystemActive :: "FaultInjectionTestFS \<Rightarrow> bool" where
  "IsFilesystemActive fs = filesystem_active fs"

definition GetError :: "FaultInjectionTestFS \<Rightarrow> IOStatus" where
  "GetError fs = error fs"

definition SetFilesystemActiveNoLock :: "bool \<Rightarrow> IOStatus \<Rightarrow> FaultInjectionTestFS \<Rightarrow> FaultInjectionTestFS" where
  "SetFilesystemActiveNoLock active err fs =
     (let fs' = fs\<lparr>filesystem_active := active\<rparr>
      in if \<not> active then fs'\<lparr>error := err\<rparr> else fs')"

definition ShouldDataCorruptionBeforeWrite :: "FaultInjectionTestFS \<Rightarrow> bool" where
  "ShouldDataCorruptionBeforeWrite fs = ingest_data_corruption_before_write fs"

definition GetChecksumHandoffFuncType :: "FaultInjectionTestFS \<Rightarrow> ChecksumType" where
  "GetChecksumHandoffFuncType fs = checksum_handoff_func_type fs"

definition ShouldFailGetUniqueId :: "FaultInjectionTestFS \<Rightarrow> bool" where
  "ShouldFailGetUniqueId fs = fail_get_file_unique_id fs"

text \<open>Modelled from the spec: the random-read-error toggle fires one time in
  \<open>read_error_one_in\<close>, drawn from the thread's generator, and never when that rate is 0.\<close>

definition ShouldInjectRandomReadError :: "FaultInjectionTestFS \<Rightarrow> bool \<times> FaultInjectionTestFS" where
  "ShouldInjectRandomReadError fs =
     (if read_error_one_in fs = 0 then (False, fs)
      else (let (fired, r) = OneIn (tls_random fs) (read_error_one_in fs)
            in (fired, fs\<lparr>tls_random := r\<rparr>)))"

definition WritableFileClosed :: "FSFileState \<Rightarrow> FaultInjectionTestFS \<Rightarrow> FaultInjectionTestFS" where
  "WritableFileClosed st fs =
     (if filename st \<in> open_managed_files fs then
        fs\<lparr>db_file_state := (db_file_state fs)(filename st \<mapsto> st),
           open_managed_files := open_managed_files fs - {filename st}\<rparr>
      else fs)"

definition WritableFileSynced :: "FSFileState \<Rightarrow> FaultInjectionTestFS \<Rightarrow> FaultInjectionTestFS" where
  "WritableFileSynced st fs =
     (if filename st \<in> open_managed_files fs then
        (if db_file_state fs (filename st) = None then
           fs\<lparr>db_file_state := (db_file_state fs)(filename st \<mapsto> st)\<rparr>
         else fs\<lparr>db_file_state := (db_file_state fs)(filename st \<mapsto> st)\<rparr>)
      else fs)"

definition WritableFileAppended :: "FSFileState \<Rightarrow> FaultInjectionTestFS \<Rightarrow> FaultInjectionTestFS" where
  "WritableFileAppended st fs =
     (if filename st \<in> open_managed_files fs then
        (if db_file_state fs (filename st) = None then
           fs\<lparr>db_file_state := (db_file_state fs)(filename st \<mapsto> st)\<rparr>
         else fs\<lparr>db_file_state := (db_file_state fs)(filename st \<mapsto> st)\<rparr>)
      else fs)"

definition SyncDir :: "string \<Rightarrow> FaultInjectionTestFS \<Rightarrow> FaultInjectionTestFS" where
  "SyncDir dirname fs =
     fs\<lparr>dir_to_new_files_since_last_sync := (dir_to_new_files_since_last_sync fs)(dirname := None)\<rparr>"

definition ResetState :: "FaultInjectionTestFS \<Rightarrow> FaultInjectionTestFS" where
  "ResetState fs =
     SetFilesystemActiveNoLock True (Corruption ''Not active'')
       (fs\<lparr>db_file_state := Map.empty, dir_to_new_files_since_last_sync := Map.empty\<rparr>)"

text \<open>\<^verbatim>\<open>m[k]\<close> on a \<^verbatim>\<open>std::map\<close> inserts an empty value when the key is absent.\<close>

definition map_index :: "('k \<rightharpoonup> ('a \<rightharpoonup> 'b)) \<Rightarrow> 'k \<Rightarrow> ('k \<rightharpoonup> ('a \<rightharpoonup> 'b)) \<times> ('a \<rightharpoonup> 'b)" where
  "map_index m k = (case m k of None \<Rightarrow> (m(k \<mapsto> Map.empty), Map.empty) | Some v \<Rightarrow> (m, v))"

definition UntrackFile :: "string \<Rightarrow> FaultInjectionTestFS \<Rightarrow> exn + FaultInjectionTestFS" where
  "UntrackFile f fs =
     (case TestFSGetDirAndName f of
        Inl e \<Rightarrow> Inl e
      | Inr dir_and_name \<Rightarrow>
          (let (m, list) = map_index (dir_to_new_files_since_last_sync fs) (fst dir_and_name)
           in Inr (fs\<lparr>dir_to_new_files_since_last_sync :=
                         m(fst dir_and_name \<mapsto> list(snd dir_and_name := None)),
                       db_file_state := (db_file_state fs)(f := None),
                       open_managed_files := open_managed_files fs - {f}\<rparr>)))"

definition TryParseFileName :: "primitives \<Rightarrow> string \<Rightarrow> exn + (nat \<times> FileType) option" where
  "TryParseFileName P file_name =
     (case find_last_of file_name ''/'' of
        None \<Rightarrow> Inl OutOfRange
      | Some found \<Rightarrow>
          (case substr file_name found of
             Inl e \<Rightarrow> Inl e
           | Inr file \<Rightarrow> Inr (ParseFileName P file)))"

definition InjectWriteError :: "primitives \<Rightarrow> string \<Rightarrow> FaultInjectionTestFS \<Rightarrow> (exn + IOStatus) \<times> FaultInjectionTestFS" where
  "InjectWriteError P file_name fs =
     (if \<not> enable_write_error_injection fs \<or> write_error_one_in fs = 0 then (Inr OK, fs)
      else
        (case (if inject_for_all_file_types fs then Inr True
               else (case TryParseFileName P file_name of
                       Inl e \<Rightarrow> Inl e
                     | Inr None \<Rightarrow> Inr False
                     | Inr (Some (number, cur_type)) \<Rightarrow>
                         Inr (cur_type \<in> set (write_error_allowed_types fs)))) of
           Inl e \<Rightarrow> (Inl e, fs)
         | Inr allowed_type \<Rightarrow>
             (if allowed_type then
                (let (fired, r) = OneIn (write_error_rand fs) (write_error_one_in fs);
                     fs' = fs\<lparr>write_error_rand := r\<rparr>
                 in if fired then (Inr (GetError fs'), fs') else (Inr OK, fs'))
              else (Inr OK, fs))))"

definition InjectMetadataWriteError :: "FaultInjectionTestFS \<Rightarrow> IOStatus \<times> FaultInjectionTestFS" where
  "InjectMetadataWriteError fs =
     (if \<not> enable_metadata_write_error_injection fs \<or> metadata_write_error_one_in fs = 0
      then (OK, fs)
      else
        (let (fired, r) = OneIn (write_error_rand fs) (metadata_write_error_one_in fs);
             fs' = fs\<lparr>write_error_rand := r\<rparr>
         in if \<not> fired then (OK, fs') else (IOError [], fs')))"

subsection \<open>The writable-file wrapper\<close>

text \<open>The calls a wrapper makes on the file it wraps (\<^verbatim>\<open>target_\<close>).\<close>

datatype target_call =
    Target_Append string
  | Target_PositionedAppend string "64 word"
  | Target_Sync
  | Target_RangeSync "64 word" "64 word"
  | Target_Close

text \<open>\<open>target_use_direct_io\<close> is what \<^verbatim>\<open>target_->use_direct_io()\<close> answers and
  \<open>file_calls\<close> the history of calls on \<^verbatim>\<open>target_\<close>. The per-file mutex is not
  modelled: the operations of one wrapper run one after the other.\<close>

record TestFSWritableFile =
  state :: FSFileState
  target_use_direct_io :: bool
  writable_file_opened :: bool
  file_calls :: "target_call list"

definition TestFSWritableFile_new :: "string \<Rightarrow> bool \<Rightarrow> TestFSWritableFile" where
  "TestFSWritableFile_new fname direct_io =
     \<lparr>state = (FSFileState_new fname)\<lparr>pos := 0\<rparr>,
      target_use_direct_io = direct_io,
      writable_file_opened = True,
      file_calls = []\<rparr>"

definition call_target :: "target_call \<Rightarrow> TestFSWritableFile \<Rightarrow> TestFSWritableFile" where
  "call_target c w = w\<lparr>file_calls := file_calls w @ [c]\<rparr>"

definition Append :: "primitives \<Rightarrow> string \<Rightarrow> TestFSWritableFile \<Rightarrow> FaultInjectionTestFS \<Rightarrow>
    (exn + IOStatus) \<times> TestFSWritableFile \<times> FaultInjectionTestFS" where
  "Append P data w fs =
     (if \<not> IsFilesystemActive fs then (Inr (GetError fs), w, fs)
      else
        (let (w1, fs1) =
               (if target_use_direct_io w then (call_target (Target_Append data) w, fs)
                else
                  (let st = (state w)\<lparr>buffer := buffer (state w) @ data\<rparr>;
                       st = st\<lparr>pos := pos st + int (length data)\<rparr>
                   in (w\<lparr>state := st\<rparr>, WritableFileAppended st fs)));
             (io_s, fs2) = InjectWriteError P (filename (state w1)) fs1
         in (io_s, w1, fs2)))"

text \<open>The message of a failed checksum hand-off.\<close>

definition corrupted_msg :: "string \<Rightarrow> string \<Rightarrow> string" where
  "corrupted_msg origin current =
     ''Data is corrupted! Origin data checksum: '' @ origin @ ''current data checksum: '' @ current"

definition Append_verified :: "primitives \<Rightarrow> string \<Rightarrow> string \<Rightarrow> TestFSWritableFile \<Rightarrow>
    FaultInjectionTestFS \<Rightarrow> (exn + IOStatus) \<times> TestFSWritableFile \<times> FaultInjectionTestFS" where
  "Append_verified P data verification_checksum w fs =
     (if \<not> IsFilesystemActive fs then (Inr (GetError fs), w, fs)
      else if ShouldDataCorruptionBeforeWrite fs then
        (Inr (Corruption ''Data is corrupted!''), w, fs)
      else
        (let checksum = CalculateTypedChecksum P (GetChecksumHandoffFuncType fs) data []
         in if GetChecksumHandoffFuncType fs \<noteq> kNoChecksum \<and> checksum \<noteq> verification_checksum
            then (Inr (Corruption (corrupted_msg verification_checksum checksum)), w, fs)
            else
              (let (w1, fs1) =
                     (if target_use_direct_io w then (call_target (Target_Append data) w, fs)
                      else
                        (let st = (state w)\<lparr>buffer := buffer (state w) @ data\<rparr>;
                             st = st\<lparr>pos := pos st + int (length data)\<rparr>
                         in (w\<lparr>state := st\<rparr>, WritableFileAppended st fs)));
                   (io_s, fs2) = InjectWriteError P (filename (state w1)) fs1
               in (io_s, w1, fs2))))"

definition PositionedAppend :: "primitives \<Rightarrow> string \<Rightarrow> 64 word \<Rightarrow> string \<Rightarrow> TestFSWritableFile \<Rightarrow>
    FaultInjectionTestFS \<Rightarrow> (exn + IOStatus) \<times> TestFSWritableFile \<times> FaultInjectionTestFS" where
  "PositionedAppend P data offset verification_checksum w fs =
     (if \<not> IsFilesystemActive fs then (Inr (GetError fs), w, fs)
      else if ShouldDataCorruptionBeforeWrite fs then
        (Inr (Corruption ''Data is corrupted!''), w, fs)
      else
        (let checksum = CalculateTypedChecksum P (GetChecksumHandoffFuncType fs) data []
         in if GetChecksumHandoffFuncType fs \<noteq> kNoChecksum \<and> checksum \<noteq> verification_checksum
            then (Inr (Corruption (corrupted_msg verification_checksum checksum)), w, fs)
            else
              (let w1 = call_target (Target_PositionedAppend data offset) w;
                   (io_s, fs1) = InjectWriteError P (filename (state w1)) fs
               in (io_s, w1, fs1))))"

text \<open>\<open>append_s\<close> and \<open>close_s\<close> are the answers of \<^verbatim>\<open>target_->Append\<close> and
  \<^verbatim>\<open>target_->Close\<close>; the answer of \<^verbatim>\<open>target_->Sync\<close> is dropped by the source.\<close>

definition Close :: "IOStatus \<Rightarrow> IOStatus \<Rightarrow> TestFSWritableFile \<Rightarrow> FaultInjectionTestFS \<Rightarrow>
    IOStatus \<times> TestFSWritableFile \<times> FaultInjectionTestFS" where
  "Close append_s close_s w fs =
     (if \<not> IsFilesystemActive fs then (GetError fs, w, fs)
      else
        (let (in_s, fs1) = InjectMetadataWriteError fs
         in if \<not> ok in_s then (in_s, w, fs1)
            else
              (let w1 = w\<lparr>writable_file_opened := False\<rparr>;
                   (io_s, w2) =
                     (if \<not> target_use_direct_io w1
                      then (append_s, call_target (Target_Append (buffer (state w1))) w1)
                      else (OK, w1));
                   (io_s, w3) =
                     (if ok io_s then
                        (close_s,
                         call_target Target_Close
                           (call_target Target_Sync (w2\<lparr>state := (state w2)\<lparr>buffer := []\<rparr>\<rparr>)))
                      else (io_s, w2))
               in if ok io_s then
                    (let fs2 = WritableFileClosed (state w3) fs1;
                         (in_s, fs3) = InjectMetadataWriteError fs2
                     in if \<not> ok in_s then (in_s, w3, fs3) else (io_s, w3, fs3))
                  else (io_s, w3, fs1))))"

definition Flush :: "TestFSWritableFile \<Rightarrow> FaultInjectionTestFS \<Rightarrow>
    IOStatus \<times> TestFSWritableFile \<times> FaultInjectionTestFS" where
  "Flush w fs =
     (if \<not> IsFilesystemActive fs then (GetError fs, w, fs)
      else
        (let w1 = (if IsFilesystemActive fs
                   then w\<lparr>state := (state w)\<lparr>pos_at_last_flush := pos (state w)\<rparr>\<rparr>
                   else w)
         in (OK, w1, fs)))"

definition Sync :: "IOStatus \<Rightarrow> TestFSWritableFile \<Rightarrow> FaultInjectionTestFS \<Rightarrow>
    IOStatus \<times> TestFSWritableFile \<times> FaultInjectionTestFS" where
  "Sync append_s w fs =
     (if \<not> IsFilesystemActive fs then (GetError fs, w, fs)
      else if target_use_direct_io w then (OK, w, fs)
      else
        (let io_s = append_s;
             w1 = call_target (Target_Append (buffer (state w))) w;
             w2 = w1\<lparr>state := (state w1)\<lparr>buffer := []\<rparr>\<rparr>;
             w3 = call_target Target_Sync w2;
             w4 = w3\<lparr>state := (state w3)\<lparr>pos_at_last_sync := pos (state w3)\<rparr>\<rparr>
         in (io_s, w4, WritableFileSynced (state w4) fs)))"

text \<open>\<^verbatim>\<open>offset\<close>, \<^verbatim>\<open>nbytes\<close> and the three locals are \<^verbatim>\<open>uint64_t\<close>: the sums and the
  difference wrap. The stored position is signed, so it is read into \<open>buf_begin\<close> and
  written back from \<open>offset + num_to_sync\<close> through the 64-bit two's complement.\<close>

definition RangeSync :: "64 word \<Rightarrow> 64 word \<Rightarrow> IOStatus \<Rightarrow> TestFSWritableFile \<Rightarrow> FaultInjectionTestFS \<Rightarrow>
    IOStatus \<times> TestFSWritableFile \<times> FaultInjectionTestFS" where
  "RangeSync offset nbytes append_s w fs =
     (if \<not> IsFilesystemActive fs then (GetError fs, w, fs)
      else
        (let sync_limit = offset + nbytes;
             buf_begin = (if pos_at_last_sync (state w) < 0 then 0
                          else (word_of_int (pos_at_last_sync (state w)) :: 64 word))
         in if sync_limit < buf_begin then (OK, w, fs)
            else
              (let num_to_sync =
                     min (word_of_nat (length (buffer (state w))) :: 64 word) (sync_limit - buf_begin);
                   buf_to_sync = take (unat num_to_sync) (buffer (state w));
                   io_s = append_s;
                   w1 = call_target (Target_Append buf_to_sync) w;
                   w2 = w1\<lparr>state := (state w1)\<lparr>buffer := drop (unat num_to_sync) (buffer (state w1))\<rparr>\<rparr>;
                   w3 = call_target (Target_RangeSync offset nbytes) w2;
                   w4 = w3\<lparr>state := (state w3)\<lparr>pos_at_last_sync := sint (offset + num_to_sync)\<rparr>\<rparr>
               in (io_s, w4, WritableFileSynced (state w4) fs))))"

subsection \<open>Read-error injection\<close>

text \<open>A pointer is null, the address of the empty literal that a default \<^verbatim>\<open>Slice\<close>
  points to, or an address of the byte store.\<close>

datatype ptr = nullptr | empty_literal | Addr nat

record Slice =
  slice_data :: ptr
  slice_size :: nat

definition Slice_default :: Slice where
  "Slice_default = \<lparr>slice_data = empty_literal, slice_size = 0\<rparr>"

type_synonym memory = "nat \<Rightarrow> char"

text \<open>The bytes a slice denotes.\<close>

definition slice_bytes :: "memory \<Rightarrow> Slice \<Rightarrow> string" where
  "slice_bytes mem sl =
     (case slice_data sl of
        Addr a \<Rightarrow> map (\<lambda>i. mem (a + i)) [0..<slice_size sl]
      | _ \<Rightarrow> [])"

text \<open>\<^verbatim>\<open>c++\<close> on a byte.\<close>

definition incr_char :: "char \<Rightarrow> char" where
  "incr_char c = char_of (of_char c + (1::nat))"

text \<open>\<^verbatim>\<open>const_cast<char*>(result->data())[result->size() - 1]++\<close>. With an empty result
  the index is outside the result, and so is a write through a pointer that is no
  address of the store.\<close>

definition corrupt_last_byte :: "Slice \<Rightarrow> memory \<Rightarrow> exn + memory" where
  "corrupt_last_byte sl mem =
     (case slice_data sl of
        Addr a \<Rightarrow>
          (if slice_size sl = 0 then Inl UndefinedBehaviour
           else Inr (mem(a + (slice_size sl - 1) := incr_char (mem (a + (slice_size sl - 1))))))
      | _ \<Rightarrow> Inl UndefinedBehaviour)"

definition log_injection :: "ErrorOperation \<Rightarrow> bool \<Rightarrow> bool \<Rightarrow> FaultInjectionTestFS \<Rightarrow> FaultInjectionTestFS" where
  "log_injection op need_count_increase fired fs =
     fs\<lparr>read_injection_calls := read_injection_calls fs @
          [\<lparr>call_op = op, call_need_count_increase = need_count_increase,
            call_fault_injected = fired\<rparr>]\<rparr>"

text \<open>The part of \<^verbatim>\<open>InjectThreadSpecificReadError\<close> that runs once the rate draw has
  fired, on the context \<open>ctx\<close> already counted. It returns the status, \<^verbatim>\<open>*result\<close>,
  the flag \<^verbatim>\<open>ret_fault_injected\<close>, the context, the thread's generator and the store.\<close>

definition inject_outcome :: "ErrorOperation \<Rightarrow> Slice option \<Rightarrow> bool \<Rightarrow> ptr \<Rightarrow> ErrorContext \<Rightarrow>
    Random \<Rightarrow> memory \<Rightarrow> (exn + IOStatus) \<times> Slice option \<times> bool \<times> ErrorContext \<times> Random \<times> memory" where
  "inject_outcome op result direct_io scratch ctx tls mem =
     (if op \<noteq> kMultiReadSingleReq then
        (Inr (IOError []), result, True, ctx\<lparr>ctx_message := ctx_message ctx @ ''error; ''\<rparr>, tls, mem)
      else
        (let (one_in_8, tls1) = OneIn tls 8
         in if one_in_8 then
              (case result of
                 None \<Rightarrow> (Inl AssertionFailure, result, False, ctx, tls1, mem)
               | Some r \<Rightarrow>
                   (Inr OK, Some Slice_default, True,
                    ctx\<lparr>ctx_message := ctx_message ctx @ ''inject empty result; ''\<rparr>, tls1, mem))
            else
              (let (one_in_7, tls2) = (if \<not> direct_io then OneIn tls1 7 else (False, tls1))
               in if \<not> direct_io \<and> one_in_7 \<and> scratch \<noteq> nullptr then
                    (case result of
                       None \<Rightarrow> (Inl UndefinedBehaviour, result, False, ctx, tls2, mem)
                     | Some r \<Rightarrow>
                         (if slice_data r = scratch then
                            (case corrupt_last_byte r mem of
                               Inl e \<Rightarrow> (Inl e, result, False, ctx, tls2, mem)
                             | Inr mem' \<Rightarrow>
                                 (Inr OK, result, True,
                                  ctx\<lparr>ctx_message := ctx_message ctx @ ''corrupt last byte; ''\<rparr>,
                                  tls2, mem'))
                          else
                            (Inr (IOError []), result, True,
                             ctx\<lparr>ctx_message := ctx_message ctx @ ''error result multiget single; ''\<rparr>,
                             tls2, mem)))
                  else
                    (Inr (IOError []), result, True,
                     ctx\<lparr>ctx_message := ctx_message ctx @ ''error result multiget single; ''\<rparr>,
                     tls2, mem))))"

text \<open>\<^verbatim>\<open>InjectThreadSpecificReadError\<close> returns the status, \<^verbatim>\<open>*result\<close> and the flag
  that it stores in \<^verbatim>\<open>*fault_injected\<close> (in a local when that pointer is null).\<close>

definition InjectThreadSpecificReadError :: "ErrorOperation \<Rightarrow> Slice option \<Rightarrow> bool \<Rightarrow> ptr \<Rightarrow> bool \<Rightarrow>
    FaultInjectionTestFS \<Rightarrow> memory \<Rightarrow>
    (exn + IOStatus) \<times> Slice option \<times> bool \<times> FaultInjectionTestFS \<times> memory" where
  "InjectThreadSpecificReadError op result direct_io scratch need_count_increase fs mem =
     (case thread_local_error fs of
        None \<Rightarrow> (Inr OK, result, False, log_injection op need_count_increase False fs, mem)
      | Some ctx \<Rightarrow>
          (if \<not> enable_error_injection ctx \<or> one_in ctx = 0 then
             (Inr OK, result, False, log_injection op need_count_increase False fs, mem)
           else
             (let (fired, r) = OneIn (rand ctx) (one_in ctx);
                  ctx = ctx\<lparr>rand := r\<rparr>
              in if fired then
                   (let ctx = (if count ctx = 0 then ctx\<lparr>ctx_message := []\<rparr> else ctx);
                        ctx = (if need_count_increase then ctx\<lparr>count := count ctx + 1\<rparr> else ctx);
                        (s, result', injected, ctx', tls', mem') =
                          inject_outcome op result direct_io scratch ctx (tls_random fs) mem
                    in (s, result', injected,
                        log_injection op need_count_increase injected
                          (fs\<lparr>thread_local_error := Some ctx', tls_random := tls'\<rparr>),
                        mem'))
                 else
                   (Inr OK, result, False,
                    log_injection op need_count_increase False (fs\<lparr>thread_local_error := Some ctx\<rparr>),
                    mem))))"

subsection \<open>Operations on wrapped files and directories\<close>

record FSReadRequest =
  req_offset :: "64 word"
  req_len :: nat
  req_scratch :: ptr
  req_result :: Slice
  req_status :: IOStatus

text \<open>The calls made on a wrapped file or directory object (the \<^verbatim>\<open>file\<close> argument of the
  \<^verbatim>\<open>Do...\<close> functions, the \<^verbatim>\<open>dir_\<close> of a directory wrapper).\<close>

datatype file_call =
    File_Write "64 word" string
  | File_Read "64 word" nat
  | File_ReadAsync FSReadRequest
  | File_MultiRead "FSReadRequest list"
  | File_SequentialRead nat
  | File_PositionedRead "64 word" nat
  | File_GetUniqueId nat
  | File_Close
  | File_Flush
  | File_Sync
  | Dir_Fsync
  | Dir_FsyncWithDirOptions
  | Dir_Close

text \<open>In each function below the first arguments are what the wrapped object answers. A
  read answers with a status, the result slice and the store with the bytes it has read.\<close>

definition DoWrite :: "IOStatus \<Rightarrow> 64 word \<Rightarrow> string \<Rightarrow> file_call list \<Rightarrow> FaultInjectionTestFS \<Rightarrow>
    IOStatus \<times> file_call list" where
  "DoWrite write_s offset data file fs =
     (if \<not> IsFilesystemActive fs then (GetError fs, file)
      else (write_s, file @ [File_Write offset data]))"

definition DoRead_RandomRW :: "IOStatus \<times> Slice \<times> memory \<Rightarrow> 64 word \<Rightarrow> nat \<Rightarrow> Slice \<Rightarrow> file_call list \<Rightarrow>
    FaultInjectionTestFS \<Rightarrow> memory \<Rightarrow> IOStatus \<times> Slice \<times> file_call list \<times> memory" where
  "DoRead_RandomRW read_answer offset n result file fs mem =
     (if \<not> IsFilesystemActive fs then (GetError fs, result, file, mem)
      else (fst read_answer, fst (snd read_answer), file @ [File_Read offset n], snd (snd read_answer)))"

definition DoClose :: "IOStatus \<Rightarrow> file_call list \<Rightarrow> FaultInjectionTestFS \<Rightarrow> IOStatus \<times> file_call list" where
  "DoClose close_s file fs =
     (if \<not> IsFilesystemActive fs then (GetError fs, file) else (close_s, file @ [File_Close]))"

definition DoFlush :: "IOStatus \<Rightarrow> file_call list \<Rightarrow> FaultInjectionTestFS \<Rightarrow> IOStatus \<times> file_call list" where
  "DoFlush flush_s file fs =
     (if \<not> IsFilesystemActive fs then (GetError fs, file) else (flush_s, file @ [File_Flush]))"

definition DoSync :: "IOStatus \<Rightarrow> file_call list \<Rightarrow> FaultInjectionTestFS \<Rightarrow> IOStatus \<times> file_call list" where
  "DoSync sync_s file fs =
     (if \<not> IsFilesystemActive fs then (GetError fs, file) else (sync_s, file @ [File_Sync]))"

definition DoRead_RandomAccess :: "IOStatus \<times> Slice \<times> memory \<Rightarrow> bool \<Rightarrow> 64 word \<Rightarrow> nat \<Rightarrow> Slice \<Rightarrow> ptr \<Rightarrow>
    file_call list \<Rightarrow> FaultInjectionTestFS \<Rightarrow> memory \<Rightarrow>
    (exn + IOStatus) \<times> Slice \<times> file_call list \<times> FaultInjectionTestFS \<times> memory" where
  "DoRead_RandomAccess read_answer direct_io offset n result scratch file fs mem =
     (if \<not> IsFilesystemActive fs then (Inr (GetError fs), result, file, fs, mem)
      else
        (let (s, result1, mem1) = read_answer;
             file1 = file @ [File_Read offset n];
             (s, result2, fs2, mem2) =
               (if ok s then
                  (let (s', r', fi, fs', mem') =
                         InjectThreadSpecificReadError kRead (Some result1) direct_io scratch True fs mem1
                   in (s', (case r' of Some r \<Rightarrow> r | None \<Rightarrow> result1), fs', mem'))
                else (Inr s, result1, fs, mem1))
         in case s of
              Inl e \<Rightarrow> (Inl e, result2, file1, fs2, mem2)
            | Inr s \<Rightarrow>
                (if ok s then
                   (let (fired, fs3) = ShouldInjectRandomReadError fs2
                    in if fired then (Inr (IOError ''Injected read error''), result2, file1, fs3, mem2)
                       else (Inr s, result2, file1, fs3, mem2))
                 else (Inr s, result2, file1, fs2, mem2))))"

text \<open>\<^verbatim>\<open>DoReadAsync\<close> returns \<open>s\<close>; the statuses handed to the completion callback are
  its second result.\<close>

definition DoReadAsync :: "IOStatus \<Rightarrow> bool \<Rightarrow> FSReadRequest \<Rightarrow> file_call list \<Rightarrow> FaultInjectionTestFS \<Rightarrow>
    memory \<Rightarrow> (exn + IOStatus) \<times> IOStatus list \<times> file_call list \<times> FaultInjectionTestFS \<times> memory" where
  "DoReadAsync async_s direct_io req file fs mem =
     (let (ret, fs1, mem1) =
            (if \<not> IsFilesystemActive fs then (Inr (GetError fs), fs, mem)
             else
               (let (s', r', fi, fs', mem') =
                      InjectThreadSpecificReadError kRead (Some Slice_default) direct_io
                        (req_scratch req) True fs mem
                in (s', fs', mem')))
      in case ret of
           Inl e \<Rightarrow> (Inl e, [], file, fs1, mem1)
         | Inr ret \<Rightarrow>
             (let (ret, s, file1, fs2) =
                    (if ok ret then
                       (let (fired, fs') = ShouldInjectRandomReadError fs1
                        in if fired then (IOError ''Injected read error'', OK, file, fs')
                           else (ret, async_s, file @ [File_ReadAsync req], fs'))
                     else (ret, OK, file, fs1))
              in (Inr s, (if \<not> ok ret then [ret] else []), file1, fs2, mem1)))"

text \<open>The loop of \<^verbatim>\<open>DoMultiRead\<close> over the sub-requests, from the first one left. It
  stops at the first request whose status is not OK.\<close>

fun inject_sub_requests :: "bool \<Rightarrow> FSReadRequest list \<Rightarrow> bool \<Rightarrow> FaultInjectionTestFS \<Rightarrow> memory \<Rightarrow>
    exn + (FSReadRequest list \<times> bool \<times> FaultInjectionTestFS \<times> memory)" where
  "inject_sub_requests direct_io [] injected_error fs mem = Inr ([], injected_error, fs, mem)"
| "inject_sub_requests direct_io (req # reqs) injected_error fs mem =
     (if \<not> ok (req_status req) then Inr (req # reqs, injected_error, fs, mem)
      else
        (case InjectThreadSpecificReadError kMultiReadSingleReq (Some (req_result req)) direct_io
                (req_scratch req) True fs mem of
           (Inl e, _) \<Rightarrow> Inl e
         | (Inr s, r', this_injected_error, fs', mem') \<Rightarrow>
             (let req' = req\<lparr>req_status := s,
                             req_result := (case r' of Some r \<Rightarrow> r | None \<Rightarrow> req_result req)\<rparr>
              in case inject_sub_requests direct_io reqs (injected_error \<or> this_injected_error) fs' mem' of
                   Inl e \<Rightarrow> Inl e
                 | Inr (reqs', injected, fs'', mem'') \<Rightarrow> Inr (req' # reqs', injected, fs'', mem''))))"

text \<open>\<open>multi_answer\<close> is what \<^verbatim>\<open>file->MultiRead\<close> answers: its status, the requests with
  their results and statuses filled in, and the store.\<close>

definition DoMultiRead :: "IOStatus \<times> FSReadRequest list \<times> memory \<Rightarrow> bool \<Rightarrow> FSReadRequest list \<Rightarrow>
    file_call list \<Rightarrow> FaultInjectionTestFS \<Rightarrow> memory \<Rightarrow>
    exn + (IOStatus \<times> FSReadRequest list \<times> file_call list \<times> FaultInjectionTestFS \<times> memory)" where
  "DoMultiRead multi_answer direct_io reqs file fs mem =
     (if \<not> IsFilesystemActive fs then Inr (GetError fs, reqs, file, fs, mem)
      else
        (let (s, reqs1, mem1) = multi_answer;
             file1 = file @ [File_MultiRead reqs]
         in case inject_sub_requests direct_io reqs1 False fs mem1 of
              Inl e \<Rightarrow> Inl e
            | Inr (reqs2, injected_error, fs2, mem2) \<Rightarrow>
                (case (if ok s then
                         (let (s', r', fi, fs', mem') =
                                InjectThreadSpecificReadError kMultiRead None direct_io nullptr
                                  (\<not> injected_error) fs2 mem2
                          in (s', fs', mem'))
                       else (Inr s, fs2, mem2)) of
                   (Inl e, _) \<Rightarrow> Inl e
                 | (Inr s, fs3, mem3) \<Rightarrow>
                     (if ok s then
                        (let (fired, fs4) = ShouldInjectRandomReadError fs3
                         in if fired then Inr (IOError ''Injected read error'', reqs2, file1, fs4, mem3)
                            else Inr (s, reqs2, file1, fs4, mem3))
                      else Inr (s, reqs2, file1, fs3, mem3)))))"

definition DoGetUniqueId :: "nat \<Rightarrow> nat \<Rightarrow> file_call list \<Rightarrow> FaultInjectionTestFS \<Rightarrow> nat \<times> file_call list" where
  "DoGetUniqueId id_answer max_size file fs =
     (if ShouldFailGetUniqueId fs then (0, file) else (id_answer, file @ [File_GetUniqueId max_size]))"

definition DoRead_Sequential :: "IOStatus \<times> Slice \<times> memory \<Rightarrow> nat \<Rightarrow> file_call list \<Rightarrow>
    FaultInjectionTestFS \<Rightarrow> IOStatus \<times> Slice \<times> file_call list \<times> FaultInjectionTestFS \<times> memory" where
  "DoRead_Sequential read_answer n file fs =
     (let (s, result, mem) = read_answer;
          file1 = file @ [File_SequentialRead n]
      in if ok s then
           (let (fired, fs1) = ShouldInjectRandomReadError fs
            in if fired then (IOError ''Injected seq read error'', result, file1, fs1, mem)
               else (s, result, file1, fs1, mem))
         else (s, result, file1, fs, mem))"

definition DoPositionedRead :: "IOStatus \<times> Slice \<times> memory \<Rightarrow> 64 word \<Rightarrow> nat \<Rightarrow> file_call list \<Rightarrow>
    FaultInjectionTestFS \<Rightarrow> IOStatus \<times> Slice \<times> file_call list \<times> FaultInjectionTestFS \<times> memory" where
  "DoPositionedRead read_answer offset n file fs =
     (let (s, result, mem) = read_answer;
          file1 = file @ [File_PositionedRead offset n]
      in if ok s then
           (let (fired, fs1) = ShouldInjectRandomReadError fs
            in if fired then
                 (IOError ''Injected seq positioned read error'', result, file1, fs1, mem)
               else (s, result, file1, fs1, mem))
         else (s, result, file1, fs, mem))"

subsection \<open>The directory wrapper\<close>

record TestFSDirectory =
  dirname :: string
  dir_calls :: "file_call list"

definition Dir_Fsync_op :: "IOStatus \<Rightarrow> TestFSDirectory \<Rightarrow> FaultInjectionTestFS \<Rightarrow>
    IOStatus \<times> TestFSDirectory \<times> FaultInjectionTestFS" where
  "Dir_Fsync_op fsync_s d fs =
     (if \<not> IsFilesystemActive fs then (GetError fs, d, fs)
      else
        (let (in_s, fs1) = InjectMetadataWriteError fs
         in if \<not> ok in_s then (in_s, d, fs1)
            else
              (let fs2 = SyncDir (dirname d) fs1;
                   s = fsync_s;
                   d1 = d\<lparr>dir_calls := dir_calls d @ [Dir_Fsync]\<rparr>
               in if ok s then
                    (let (in_s, fs3) = InjectMetadataWriteError fs2
                     in if \<not> ok in_s then (in_s, d1, fs3) else (s, d1, fs3))
                  else (s, d1, fs2))))"

definition Dir_Close_op :: "IOStatus \<Rightarrow> TestFSDirectory \<Rightarrow> FaultInjectionTestFS \<Rightarrow>
    IOStatus \<times> TestFSDirectory" where
  "Dir_Close_op close_s d fs =
     (if \<not> IsFilesystemActive fs then (GetError fs, d)
      else (close_s, d\<lparr>dir_calls := dir_calls d @ [Dir_Close]\<rparr>))"

definition Dir_FsyncWithDirOptions_op :: "IOStatus \<Rightarrow> TestFSDirectory \<Rightarrow> FaultInjectionTestFS \<Rightarrow>
    IOStatus \<times> TestFSDirectory \<times> FaultInjectionTestFS" where
  "Dir_FsyncWithDirOptions_op fsync_s d fs =
     (if \<not> IsFilesystemActive fs then (GetError fs, d, fs)
      else
        (let (in_s, fs1) = InjectMetadataWriteError fs
         in if \<not> ok in_s then (in_s, d, fs1)
            else
              (let fs2 = SyncDir (dirname d) fs1;
                   s = fsync_s;
                   d1 = d\<lparr>dir_calls := dir_calls d @ [Dir_FsyncWithDirOptions]\<rparr>
               in if ok s then
                    (let (in_s, fs3) = InjectMetadataWriteError fs2
                     in if \<not> ok in_s then (in_s, d1, fs3) else (s, d1, fs3))
                  else (s, d1, fs2))))"

subsection \<open>Operations of the facade\<close>

definition call_fs :: "fs_call \<Rightarrow> FaultInjectionTestFS \<Rightarrow> FaultInjectionTestFS" where
  "call_fs c fs = fs\<lparr>fs_calls := fs_calls fs @ [c]\<rparr>"

text \<open>What a creating operation leaves in \<^verbatim>\<open>*result\<close>: the file of the wrapped file
  system as it is, or a wrapper of this file around it.\<close>

datatype writable_result = Unwrapped | Wrapped TestFSWritableFile

text \<open>\<^verbatim>\<open>list[name] = contents\<close> for \<^verbatim>\<open>list = dir_to_new_files_since_last_sync_[dir]\<close>.\<close>

definition record_new_file :: "string \<times> string \<Rightarrow> string \<Rightarrow> FaultInjectionTestFS \<Rightarrow> FaultInjectionTestFS" where
  "record_new_file dir_and_name contents fs =
     (let (m, list) = map_index (dir_to_new_files_since_last_sync fs) (fst dir_and_name)
      in fs\<lparr>dir_to_new_files_since_last_sync :=
               m(fst dir_and_name \<mapsto> list(snd dir_and_name \<mapsto> contents))\<rparr>)"

definition NewDirectory :: "IOStatus \<Rightarrow> string \<Rightarrow> FaultInjectionTestFS \<Rightarrow>
    IOStatus \<times> TestFSDirectory option \<times> FaultInjectionTestFS" where
  "NewDirectory new_s name fs =
     (let io_s = new_s; fs1 = call_fs (FS_NewDirectory name) fs
      in if \<not> ok io_s then (io_s, None, fs1)
         else (OK, Some \<lparr>dirname = TestFSTrimDirname name, dir_calls = []\<rparr>, fs1))"

text \<open>\<open>new_answer\<close> is the status of the wrapped file system and whether the file it
  made uses direct I/O; \<open>use_direct_writable\<close> is what \<^verbatim>\<open>ShouldUseDirectWritable(fname)\<close>
  of the header answers.\<close>

definition NewWritableFile :: "IOStatus \<times> bool \<Rightarrow> bool \<Rightarrow> string \<Rightarrow> FaultInjectionTestFS \<Rightarrow>
    (exn + IOStatus) \<times> writable_result option \<times> FaultInjectionTestFS" where
  "NewWritableFile new_answer use_direct_writable fname fs =
     (if \<not> IsFilesystemActive fs then (Inr (GetError fs), None, fs)
      else
        (let (in_s, fs1) = InjectMetadataWriteError fs
         in if \<not> ok in_s then (Inr in_s, None, fs1)
            else if use_direct_writable then
              (Inr (fst new_answer), (if ok (fst new_answer) then Some Unwrapped else None),
               call_fs (FS_NewWritableFile fname) fs1)
            else
              (let io_s = fst new_answer; fs2 = call_fs (FS_NewWritableFile fname) fs1
               in if ok io_s then
                    (let result = Some (Wrapped (TestFSWritableFile_new fname (snd new_answer)))
                     in case UntrackFile fname fs2 of
                          Inl e \<Rightarrow> (Inl e, result, fs2)
                        | Inr fs3 \<Rightarrow>
                            (let fs4 = fs3\<lparr>open_managed_files := insert fname (open_managed_files fs3)\<rparr>
                             in case TestFSGetDirAndName fname of
                                  Inl e \<Rightarrow> (Inl e, result, fs4)
                                | Inr dir_and_name \<Rightarrow>
                                    (let fs5 = record_new_file dir_and_name kNewFileNoOverwrite fs4;
                                         (in_s, fs6) = InjectMetadataWriteError fs5
                                     in if \<not> ok in_s then (Inr in_s, result, fs6)
                                        else (Inr io_s, result, fs6))))
                  else (Inr io_s, None, fs2))))"

definition ReopenWritableFile :: "IOStatus \<Rightarrow> IOStatus \<times> bool \<Rightarrow> bool \<Rightarrow> string \<Rightarrow> FaultInjectionTestFS \<Rightarrow>
    (exn + IOStatus) \<times> writable_result option \<times> FaultInjectionTestFS" where
  "ReopenWritableFile exists_s reopen_answer use_direct_writable fname fs =
     (if \<not> IsFilesystemActive fs then (Inr (GetError fs), None, fs)
      else if use_direct_writable then
        (Inr (fst reopen_answer), (if ok (fst reopen_answer) then Some Unwrapped else None),
         call_fs (FS_ReopenWritableFile fname) fs)
      else
        (let (in_s, fs1) = InjectMetadataWriteError fs
         in if \<not> ok in_s then (Inr in_s, None, fs1)
            else
              (let fs2 = call_fs (FS_FileExists fname) fs1;
                   (io_s, exists) =
                     (if IsNotFound exists_s then (OK, False)
                      else if ok exists_s then (OK, True)
                      else (exists_s, False));
                   (io_s, fs3) =
                     (if ok io_s then (fst reopen_answer, call_fs (FS_ReopenWritableFile fname) fs2)
                      else (io_s, fs2))
               in if ok io_s then
                    (case (if db_file_state fs3 fname \<noteq> None then
                             (if exists then Inr (True, fs3) else Inl (AssertionFailure, fs3))
                           else if \<not> exists then
                             (let fs' = fs3\<lparr>open_managed_files := insert fname (open_managed_files fs3)\<rparr>
                              in case TestFSGetDirAndName fname of
                                   Inl e \<Rightarrow> Inl (e, fs')
                                 | Inr dir_and_name \<Rightarrow>
                                     Inr (True, record_new_file dir_and_name kNewFileNoOverwrite fs'))
                           else Inr (False, fs3)) of
                       Inl (e, fs') \<Rightarrow> (Inl e, Some Unwrapped, fs')
                     | Inr (should_track, fs4) \<Rightarrow>
                         (let result =
                                (if should_track
                                 then Some (Wrapped (TestFSWritableFile_new fname (snd reopen_answer)))
                                 else Some Unwrapped);
                              (in_s, fs5) = InjectMetadataWriteError fs4
                          in if \<not> ok in_s then (Inr in_s, result, fs5) else (Inr io_s, result, fs5)))
                  else (Inr io_s, None, fs3))))"

definition NewRandomRWFile :: "IOStatus \<Rightarrow> bool \<Rightarrow> string \<Rightarrow> FaultInjectionTestFS \<Rightarrow>
    (exn + IOStatus) \<times> FaultInjectionTestFS" where
  "NewRandomRWFile new_s use_direct_writable fname fs =
     (if \<not> IsFilesystemActive fs then (Inr (GetError fs), fs)
      else if use_direct_writable then (Inr new_s, call_fs (FS_NewRandomRWFile fname) fs)
      else
        (let (in_s, fs1) = InjectMetadataWriteError fs
         in if \<not> ok in_s then (Inr in_s, fs1)
            else
              (let io_s = new_s; fs2 = call_fs (FS_NewRandomRWFile fname) fs1
               in if ok io_s then
                    (case UntrackFile fname fs2 of
                       Inl e \<Rightarrow> (Inl e, fs2)
                     | Inr fs3 \<Rightarrow>
                         (let fs4 = fs3\<lparr>open_managed_files := insert fname (open_managed_files fs3)\<rparr>
                          in case TestFSGetDirAndName fname of
                               Inl e \<Rightarrow> (Inl e, fs4)
                             | Inr dir_and_name \<Rightarrow>
                                 (let fs5 = record_new_file dir_and_name kNewFileNoOverwrite fs4;
                                      (in_s, fs6) = InjectMetadataWriteError fs5
                                  in if \<not> ok in_s then (Inr in_s, fs6) else (Inr io_s, fs6))))
                  else (Inr io_s, fs2))))"

definition NewRandomAccessFile :: "IOStatus \<Rightarrow> string \<Rightarrow> FaultInjectionTestFS \<Rightarrow> memory \<Rightarrow>
    (exn + IOStatus) \<times> FaultInjectionTestFS" where
  "NewRandomAccessFile new_s fname fs mem =
     (if \<not> IsFilesystemActive fs then (Inr (GetError fs), fs)
      else
        (let (fired, fs1) = ShouldInjectRandomReadError fs
         in if fired then (Inr (IOError ''Injected error when open random access file''), fs1)
            else
              (let (io_s, r', fi, fs2, mem') =
                     InjectThreadSpecificReadError kOpen None False nullptr True fs1 mem
               in case io_s of
                    Inl e \<Rightarrow> (Inl e, fs2)
                  | Inr io_s \<Rightarrow>
                      (if ok io_s then (Inr new_s, call_fs (FS_NewRandomAccessFile fname) fs2)
                       else (Inr io_s, fs2)))))"

definition NewSequentialFile :: "IOStatus \<Rightarrow> string \<Rightarrow> FaultInjectionTestFS \<Rightarrow> IOStatus \<times> FaultInjectionTestFS" where
  "NewSequentialFile new_s fname fs =
     (if \<not> IsFilesystemActive fs then (GetError fs, fs)
      else
        (let (fired, fs1) = ShouldInjectRandomReadError fs
         in if fired then (IOError ''Injected read error when creating seq file'', fs1)
            else (new_s, call_fs (FS_NewSequentialFile fname) fs1)))"

definition DeleteFile :: "IOStatus \<Rightarrow> string \<Rightarrow> FaultInjectionTestFS \<Rightarrow> (exn + IOStatus) \<times> FaultInjectionTestFS" where
  "DeleteFile delete_s f fs =
     (if \<not> IsFilesystemActive fs then (Inr (GetError fs), fs)
      else
        (let (in_s, fs1) = InjectMetadataWriteError fs
         in if \<not> ok in_s then (Inr in_s, fs1)
            else
              (let io_s = delete_s; fs2 = call_fs (FS_DeleteFile f) fs1
               in if ok io_s then
                    (case UntrackFile f fs2 of
                       Inl e \<Rightarrow> (Inl e, fs2)
                     | Inr fs3 \<Rightarrow>
                         (let (in_s, fs4) = InjectMetadataWriteError fs3
                          in if \<not> ok in_s then (Inr in_s, fs4) else (Inr io_s, fs4)))
                  else (Inr io_s, fs2))))"

text \<open>\<open>exists_s\<close> and \<open>size_answer\<close> are the answers of \<^verbatim>\<open>FileExists(t)\<close> and
  \<^verbatim>\<open>GetFileSize(t)\<close>, \<open>read_contents\<close> is what \<^verbatim>\<open>ReadFileToString\<close> leaves in
  \<^verbatim>\<open>previous_contents\<close> (its status is dropped), \<open>rename_s\<close> the answer of the rename.\<close>

definition RenameFile :: "IOStatus \<Rightarrow> IOStatus \<times> 64 word \<Rightarrow> string \<Rightarrow> IOStatus \<Rightarrow> string \<Rightarrow> string \<Rightarrow>
    FaultInjectionTestFS \<Rightarrow> (exn + IOStatus) \<times> FaultInjectionTestFS" where
  "RenameFile exists_s size_answer read_contents rename_s s t fs =
     (if \<not> IsFilesystemActive fs then (Inr (GetError fs), fs)
      else
        (let (in_s, fs1) = InjectMetadataWriteError fs
         in if \<not> ok in_s then (Inr in_s, fs1)
            else
              (let fs2 = call_fs (FS_FileExists t) fs1;
                   (previous_contents, fs3) =
                     (if ok exists_s then
                        (let fs' = call_fs (FS_GetFileSize t) fs2
                         in if ok (fst size_answer) \<and> snd size_answer < 1024
                            then (read_contents, call_fs (FS_ReadFileToString t) fs')
                            else (kNewFileNoOverwrite, fs'))
                      else (kNewFileNoOverwrite, fs2));
                   io_s = rename_s;
                   fs4 = call_fs (FS_RenameFile s t) fs3
               in if ok io_s then
                    (let fs5 =
                           (if db_file_state fs4 s \<noteq> None then
                              fs4\<lparr>db_file_state :=
                                    ((db_file_state fs4)(t := db_file_state fs4 s))(s := None)\<rparr>
                            else fs4)
                     in case TestFSGetDirAndName s of
                          Inl e \<Rightarrow> (Inl e, fs5)
                        | Inr sdn \<Rightarrow>
                            (case TestFSGetDirAndName t of
                               Inl e \<Rightarrow> (Inl e, fs5)
                             | Inr tdn \<Rightarrow>
                                 (let (m, slist) = map_index (dir_to_new_files_since_last_sync fs5) (fst sdn);
                                      erased = (slist (snd sdn) \<noteq> None);
                                      fs6 = fs5\<lparr>dir_to_new_files_since_last_sync :=
                                                  m(fst sdn \<mapsto> slist(snd sdn := None))\<rparr>
                                  in case (if erased then
                                             (if snd (map_index (dir_to_new_files_since_last_sync fs6)
                                                        (fst tdn)) (snd tdn) \<noteq> None
                                              then Inl (fs6\<lparr>dir_to_new_files_since_last_sync :=
                                                              fst (map_index (dir_to_new_files_since_last_sync fs6)
                                                                     (fst tdn))\<rparr>)
                                              else Inr (record_new_file tdn previous_contents fs6))
                                           else Inr fs6) of
                                       Inl fs' \<Rightarrow> (Inl AssertionFailure, fs')
                                     | Inr fs7 \<Rightarrow>
                                         (let (in_s, fs8) = InjectMetadataWriteError fs7
                                          in if \<not> ok in_s then (Inr in_s, fs8) else (Inr io_s, fs8)))))
                  else (Inr io_s, fs4))))"

definition LinkFile :: "IOStatus \<Rightarrow> string \<Rightarrow> string \<Rightarrow> FaultInjectionTestFS \<Rightarrow>
    (exn + IOStatus) \<times> FaultInjectionTestFS" where
  "LinkFile link_s s t fs =
     (if \<not> IsFilesystemActive fs then (Inr (GetError fs), fs)
      else
        (let (in_s, fs1) = InjectMetadataWriteError fs
         in if \<not> ok in_s then (Inr in_s, fs1)
            else
              (let previous_contents = kNewFileNoOverwrite;
                   io_s = link_s;
                   fs2 = call_fs (FS_LinkFile s t) fs1
               in if ok io_s then
                    (let fs3 =
                           (if db_file_state fs2 s \<noteq> None then
                              fs2\<lparr>db_file_state := (db_file_state fs2)(t := db_file_state fs2 s)\<rparr>
                            else fs2)
                     in case TestFSGetDirAndName s of
                          Inl e \<Rightarrow> (Inl e, fs3)
                        | Inr sdn \<Rightarrow>
                            (case TestFSGetDirAndName t of
                               Inl e \<Rightarrow> (Inl e, fs3)
                             | Inr tdn \<Rightarrow>
                                 (let (m, slist) = map_index (dir_to_new_files_since_last_sync fs3) (fst sdn);
                                      fs4 = fs3\<lparr>dir_to_new_files_since_last_sync := m\<rparr>
                                  in case (if slist (snd sdn) \<noteq> None then
                                             (if snd (map_index (dir_to_new_files_since_last_sync fs4)
                                                        (fst tdn)) (snd tdn) \<noteq> None
                                              then Inl (fs4\<lparr>dir_to_new_files_since_last_sync :=
                                                              fst (map_index (dir_to_new_files_since_last_sync fs4)
                                                                     (fst tdn))\<rparr>)
                                              else Inr (record_new_file tdn previous_contents fs4))
                                           else Inr fs4) of
                                       Inl fs' \<Rightarrow> (Inl AssertionFailure, fs')
                                     | Inr fs5 \<Rightarrow>
                                         (let (in_s, fs6) = InjectMetadataWriteError fs5
                                          in if \<not> ok in_s then (Inr in_s, fs6) else (Inr io_s, fs6)))))
                  else (Inr io_s, fs2))))"

definition Poll :: "IOStatus \<Rightarrow> FaultInjectionTestFS \<Rightarrow> IOStatus \<times> FaultInjectionTestFS" where
  "Poll poll_s fs = (poll_s, call_fs FS_Poll fs)"

definition AbortIO :: "IOStatus \<Rightarrow> FaultInjectionTestFS \<Rightarrow> IOStatus \<times> FaultInjectionTestFS" where
  "AbortIO abort_s fs = (abort_s, call_fs FS_AbortIO fs)"

text \<open>\<^verbatim>\<open>DropUnsyncedData\<close> always answers OK, so the loop of \<^verbatim>\<open>DropUnsyncedFileData\<close>
  visits every entry of the map.\<close>

definition DropUnsyncedFileData :: "FaultInjectionTestFS \<Rightarrow> IOStatus \<times> FaultInjectionTestFS" where
  "DropUnsyncedFileData fs =
     (OK, fs\<lparr>db_file_state :=
               (\<lambda>f. map_option
                       (\<lambda>fs_state. if \<not> IsFullySynced fs_state then snd (DropUnsyncedData fs_state)
                                   else fs_state)
                       (db_file_state fs f))\<rparr>)"

text \<open>The two loops of \<^verbatim>\<open>DeleteFilesCreatedAfterLastDirSync\<close> over \<^verbatim>\<open>map_copy\<close>, given as
  the list of its entries \<open>(directory, file name, contents)\<close> in the order of iteration.
  \<open>delete_answer\<close> and \<open>write_answer\<close> are what the wrapped file system answers for a path.\<close>

fun restore_entries :: "(string \<Rightarrow> IOStatus) \<Rightarrow> (string \<Rightarrow> IOStatus) \<Rightarrow> (string \<times> string \<times> string) list \<Rightarrow>
    FaultInjectionTestFS \<Rightarrow> (exn + IOStatus) \<times> FaultInjectionTestFS" where
  "restore_entries delete_answer write_answer [] fs = (Inr OK, fs)"
| "restore_entries delete_answer write_answer ((dir, fname, contents) # entries) fs =
     (if contents = kNewFileNoOverwrite then
        (case DeleteFile (delete_answer (new_file_path dir fname)) (new_file_path dir fname) fs of
           (Inl e, fs') \<Rightarrow> (Inl e, fs')
         | (Inr io_s, fs') \<Rightarrow>
             (if \<not> ok io_s then (Inr io_s, fs')
              else restore_entries delete_answer write_answer entries fs'))
      else
        (let io_s = write_answer (new_file_path dir fname);
             fs' = call_fs (FS_WriteStringToFile contents (new_file_path dir fname)) fs
         in if \<not> ok io_s then (Inr io_s, fs')
            else restore_entries delete_answer write_answer entries fs'))"

definition DeleteFilesCreatedAfterLastDirSync :: "(string \<Rightarrow> IOStatus) \<Rightarrow> (string \<Rightarrow> IOStatus) \<Rightarrow>
    (string \<times> string \<times> string) list \<Rightarrow> FaultInjectionTestFS \<Rightarrow> (exn + IOStatus) \<times> FaultInjectionTestFS" where
  "DeleteFilesCreatedAfterLastDirSync delete_answer write_answer map_copy fs =
     restore_entries delete_answer write_answer map_copy fs"

text \<open>A run of wrapper operations. Between two operations of a wrapper other threads may
  have changed the facade in any way, so every operation of a run comes with the facade
  state it meets, and with the answers of the wrapped file.\<close>

datatype wf_op =
    Op_Append string
  | Op_Append_verified string string
  | Op_PositionedAppend string "64 word" string
  | Op_Flush
  | Op_Sync IOStatus
  | Op_RangeSync "64 word" "64 word" IOStatus
  | Op_Close IOStatus IOStatus

fun is_RangeSync :: "wf_op \<Rightarrow> bool" where
  "is_RangeSync (Op_RangeSync offset nbytes append_s) = True"
| "is_RangeSync _ = False"

fun wf_step :: "primitives \<Rightarrow> wf_op \<times> FaultInjectionTestFS \<Rightarrow> TestFSWritableFile \<Rightarrow> TestFSWritableFile" where
  "wf_step P (Op_Append data, fs) w = fst (snd (Append P data w fs))"
| "wf_step P (Op_Append_verified data c, fs) w = fst (snd (Append_verified P data c w fs))"
| "wf_step P (Op_PositionedAppend data offset c, fs) w =
     fst (snd (PositionedAppend P data offset c w fs))"
| "wf_step P (Op_Flush, fs) w = fst (snd (Flush w fs))"
| "wf_step P (Op_Sync append_s, fs) w = fst (snd (Sync append_s w fs))"
| "wf_step P (Op_RangeSync offset nbytes append_s, fs) w =
     fst (snd (RangeSync offset nbytes append_s w fs))"
| "wf_step P (Op_Close append_s close_s, fs) w = fst (snd (Close append_s close_s w fs))"

definition wf_run :: "primitives \<Rightarrow> (wf_op \<times> FaultInjectionTestFS) list \<Rightarrow> TestFSWritableFile \<Rightarrow> TestFSWritableFile" where
  "wf_run P ops w = fold (wf_step P) ops w"

text \<open>The ordering of the three positions that the specification states.\<close>

definition positions_ordered :: "FSFileState \<Rightarrow> bool" where
  "positions_ordered st \<longleftrightarrow>
     0 \<le> pos_at_last_sync st \<and> pos_at_last_sync st \<le> pos_at_last_flush st \<and>
     pos_at_last_flush st \<le> pos st"

text \<open>What the operations other than \<^verbatim>\<open>RangeSync\<close> keep: neither recorded position is
  ahead of \<open>pos\<close>, and each is \<open>-1\<close> or later.\<close>

definition positions_bounded :: "FSFileState \<Rightarrow> bool" where
  "positions_bounded st \<longleftrightarrow>
     0 \<le> pos st \<and> -1 \<le> pos_at_last_sync st \<and> pos_at_last_sync st \<le> pos st \<and>
     -1 \<le> pos_at_last_flush st \<and> pos_at_last_flush st \<le> pos st"

definition flush_bounded :: "FSFileState \<Rightarrow> bool" where
  "flush_bounded st \<longleftrightarrow> 0 \<le> pos st \<and> -1 \<le> pos_at_last_flush st \<and> pos_at_last_flush st \<le> pos st"

text \<open>A facade state for concrete runs: active, every injection off, CRC32c hand-off,
  nothing tracked.\<close>

definition quiet_fs :: FaultInjectionTestFS where
  "quiet_fs =
     \<lparr>db_file_state = Map.empty,
      dir_to_new_files_since_last_sync = Map.empty,
      open_managed_files = {},
      filesystem_active = True,
      error = Corruption ''Not active'',
      enable_write_error_injection = False,
      enable_metadata_write_error_injection = False,
      write_error_rand = (\<lambda>i. 0),
      write_error_one_in = 0,
      metadata_write_error_one_in = 0,
      read_error_one_in = 0,
      inject_for_all_file_types = False,
      write_error_allowed_types = [],
      ingest_data_corruption_before_write = False,
      checksum_handoff_func_type = kCRC32c,
      fail_get_file_unique_id = False,
      thread_local_error = None,
      tls_random = (\<lambda>i. 0),
      fs_calls = [],
      read_injection_calls = []\<rparr>"

text \<open>Stand-ins for the checksum primitives and the file-name parser in concrete runs.\<close>

definition toy_primitives :: primitives where
  "toy_primitives =
     \<lparr>crc32c_Extend = (\<lambda>init data. init + word_of_nat (length data)),
      XXH32 = (\<lambda>data seed. seed + word_of_nat (length data)),
      ParseFileName = (\<lambda>file. None)\<rparr>"

subsection \<open>Facts about the string functions\<close>

lemma find_last_of_less: "find_last_of s cs = Some i \<Longrightarrow> i < length s"
  by (induction s arbitrary: i) (auto split: option.splits if_splits)

lemma find_last_of_split:
  "find_last_of s cs = Some i \<Longrightarrow> s = take i s @ (s ! i) # drop (Suc i) s"
  by (simp add: find_last_of_less id_take_nth_drop)

subsection \<open>Facts about the writable-file wrapper\<close>

lemma state_call_target [simp]: "state (call_target c w) = state w"
  by (simp add: call_target_def)

lemma InjectWriteError_frame:
  "db_file_state (snd (InjectWriteError P f fs)) = db_file_state fs \<and>
   open_managed_files (snd (InjectWriteError P f fs)) = open_managed_files fs"
  by (simp add: InjectWriteError_def Let_def split: sum.splits option.splits prod.splits)

lemma InjectWriteError_status:
  "fst (InjectWriteError P f fs) = Inr OK \<or>
   enable_write_error_injection fs \<and> write_error_one_in fs \<noteq> 0 \<and>
     (fst (InjectWriteError P f fs) = Inr (GetError fs) \<or>
      fst (InjectWriteError P f fs) = Inl OutOfRange)"
  by (auto simp add: InjectWriteError_def Let_def GetError_def TryParseFileName_def substr_def
      split: sum.splits option.splits prod.splits if_splits)

lemma InjectMetadataWriteError_frame:
  "db_file_state (snd (InjectMetadataWriteError fs)) = db_file_state fs \<and>
   open_managed_files (snd (InjectMetadataWriteError fs)) = open_managed_files fs"
  by (simp add: InjectMetadataWriteError_def Let_def split: prod.splits)

lemma corrupted_msg_contains:
  "sublist origin (corrupted_msg origin current) \<and> sublist current (corrupted_msg origin current)"
proof
  have "corrupted_msg origin current =
      ''Data is corrupted! Origin data checksum: '' @ origin @ (''current data checksum: '' @ current)"
    by (simp add: corrupted_msg_def)
  then show "sublist origin (corrupted_msg origin current)"
    unfolding sublist_def by blast
  have "corrupted_msg origin current =
      (''Data is corrupted! Origin data checksum: '' @ origin @ ''current data checksum: '') @ current @ []"
    by (simp add: corrupted_msg_def)
  then show "sublist current (corrupted_msg origin current)"
    unfolding sublist_def by blast
qed

text \<open>What each operation can do to the state record of its wrapper.\<close>

lemma Append_state:
  "state (fst (snd (Append P data w fs))) = state w \<or>
   state (fst (snd (Append P data w fs))) =
     (state w)\<lparr>buffer := buffer (state w) @ data, pos := pos (state w) + int (length data)\<rparr>"
  by (simp add: Append_def Let_def split: prod.splits)

lemma Append_verified_state:
  "state (fst (snd (Append_verified P data c w fs))) = state w \<or>
   state (fst (snd (Append_verified P data c w fs))) =
     (state w)\<lparr>buffer := buffer (state w) @ data, pos := pos (state w) + int (length data)\<rparr>"
  by (simp add: Append_verified_def Let_def split: prod.splits)

lemma PositionedAppend_state:
  "state (fst (snd (PositionedAppend P data off c w fs))) = state w"
  by (simp add: PositionedAppend_def Let_def split: prod.splits)

lemma Flush_state:
  "state (fst (snd (Flush w fs))) = state w \<or>
   state (fst (snd (Flush w fs))) = (state w)\<lparr>pos_at_last_flush := pos (state w)\<rparr>"
  by (simp add: Flush_def Let_def)

lemma Sync_state:
  "state (fst (snd (Sync a w fs))) = state w \<or>
   state (fst (snd (Sync a w fs))) = (state w)\<lparr>buffer := [], pos_at_last_sync := pos (state w)\<rparr>"
  by (simp add: Sync_def Let_def)

lemma Close_state:
  "state (fst (snd (Close a c w fs))) = state w \<or>
   state (fst (snd (Close a c w fs))) = (state w)\<lparr>buffer := []\<rparr>"
  by (simp add: Close_def Let_def split: prod.splits)

lemma RangeSync_state:
  "\<exists>b s. state (fst (snd (RangeSync off n a w fs))) = (state w)\<lparr>buffer := b, pos_at_last_sync := s\<rparr>"
proof (cases "state (fst (snd (RangeSync off n a w fs))) = state w")
  case True
  then have "state (fst (snd (RangeSync off n a w fs))) =
      (state w)\<lparr>buffer := buffer (state w), pos_at_last_sync := pos_at_last_sync (state w)\<rparr>"
    by simp
  then show ?thesis by blast
next
  case False
  then show ?thesis
    by (auto simp add: RangeSync_def Let_def split: if_splits)
qed

lemma wf_step_bounded:
  assumes "positions_bounded (state w)" and "\<not> is_RangeSync (fst x)"
  shows "positions_bounded (state (wf_step P x w))"
proof (cases x)
  case (Pair op fs)
  show ?thesis
  proof (cases op)
    case (Op_Append data)
    with Pair assms Append_state [of P data w fs] show ?thesis
      by (auto simp: positions_bounded_def)
  next
    case (Op_Append_verified data c)
    with Pair assms Append_verified_state [of P data c w fs] show ?thesis
      by (auto simp: positions_bounded_def)
  next
    case (Op_PositionedAppend data off c)
    with Pair assms show ?thesis by (simp add: PositionedAppend_state)
  next
    case Op_Flush
    with Pair assms Flush_state [of w fs] show ?thesis
      by (auto simp: positions_bounded_def)
  next
    case (Op_Sync a)
    with Pair assms Sync_state [of a w fs] show ?thesis
      by (auto simp: positions_bounded_def)
  next
    case (Op_RangeSync off n a)
    with Pair assms show ?thesis by simp
  next
    case (Op_Close a c)
    with Pair assms Close_state [of a c w fs] show ?thesis
      by (auto simp: positions_bounded_def)
  qed
qed

lemma wf_step_flush_bounded:
  assumes "flush_bounded (state w)"
  shows "flush_bounded (state (wf_step P x w))"
proof (cases x)
  case (Pair op fs)
  show ?thesis
  proof (cases op)
    case (Op_Append data)
    with Pair assms Append_state [of P data w fs] show ?thesis
      by (auto simp: flush_bounded_def)
  next
    case (Op_Append_verified data c)
    with Pair assms Append_verified_state [of P data c w fs] show ?thesis
      by (auto simp: flush_bounded_def)
  next
    case (Op_PositionedAppend data off c)
    with Pair assms show ?thesis by (simp add: PositionedAppend_state)
  next
    case Op_Flush
    with Pair assms Flush_state [of w fs] show ?thesis
      by (auto simp: flush_bounded_def)
  next
    case (Op_Sync a)
    with Pair assms Sync_state [of a w fs] show ?thesis
      by (auto simp: flush_bounded_def)
  next
    case (Op_RangeSync off n a)
    with Pair assms RangeSync_state [of off n a w fs] show ?thesis
      by (auto simp: flush_bounded_def)
  next
    case (Op_Close a c)
    with Pair assms Close_state [of a c w fs] show ?thesis
      by (auto simp: flush_bounded_def)
  qed
qed

lemma wf_run_bounded:
  "positions_bounded (state w) \<Longrightarrow> \<forall>x\<in>set ops. \<not> is_RangeSync (fst x) \<Longrightarrow>
   positions_bounded (state (wf_run P ops w))"
  unfolding wf_run_def
  by (induction ops arbitrary: w) (simp_all add: wf_step_bounded)

lemma wf_run_flush_bounded:
  "flush_bounded (state w) \<Longrightarrow> flush_bounded (state (wf_run P ops w))"
  unfolding wf_run_def
  by (induction ops arbitrary: w) (simp_all add: wf_step_flush_bounded)

lemma new_bounded: "positions_bounded (state (TestFSWritableFile_new fname d))"
  by (simp add: TestFSWritableFile_new_def FSFileState_new_def positions_bounded_def)

lemma new_flush_bounded: "flush_bounded (state (TestFSWritableFile_new fname d))"
  by (simp add: TestFSWritableFile_new_def FSFileState_new_def flush_bounded_def)

subsection \<open>Facts about the facade\<close>

lemma db_call_fs [simp]: "db_file_state (call_fs c fs) = db_file_state fs"
  by (simp add: call_fs_def)

lemma db_record_new_file [simp]: "db_file_state (record_new_file dn contents fs) = db_file_state fs"
  by (simp add: record_new_file_def split: prod.splits)

lemma db_InjectMetadataWriteError [simp]:
  "db_file_state (snd (InjectMetadataWriteError fs)) = db_file_state fs"
  by (simp add: InjectMetadataWriteError_frame)

lemma InjectMetadataWriteError_not_ok:
  "ok (fst (InjectMetadataWriteError fs)) \<or> fst (InjectMetadataWriteError fs) = IOError []"
  by (simp add: InjectMetadataWriteError_def Let_def ok_def OK_def split: prod.splits)

lemma RenameFile_db:
  assumes "IsFilesystemActive fs"
    and "RenameFile exists_s size_answer read_contents rename_s s t fs = (Inr st, fs')"
    and "ok st"
  shows "db_file_state fs' =
     (if db_file_state fs s \<noteq> None
      then ((db_file_state fs)(t := db_file_state fs s))(s := None)
      else db_file_state fs)"
  using assms InjectMetadataWriteError_not_ok [of fs]
  by (auto simp add: RenameFile_def Let_def case_prod_beta
      split: if_splits sum.splits)



lemma ResetState_open [simp]: "open_managed_files (ResetState fs) = open_managed_files fs"
  by (simp add: ResetState_def SetFilesystemActiveNoLock_def)

lemma ResetState_active [simp]: "IsFilesystemActive (ResetState fs)"
  by (simp add: ResetState_def SetFilesystemActiveNoLock_def IsFilesystemActive_def)

lemma InjectWriteError_db [simp]:
  "db_file_state (snd (InjectWriteError P f fs)) = db_file_state fs"
  by (simp add: InjectWriteError_frame)


subsection \<open>Facts about read-error injection\<close>

lemma slice_bytes_corrupt:
  assumes "slice_data r = Addr a" and "0 < slice_size r"
  shows "slice_bytes (mem(a + (slice_size r - 1) := incr_char (mem (a + (slice_size r - 1))))) r =
         butlast (slice_bytes mem r) @ [incr_char (last (slice_bytes mem r))]"
proof -
  obtain n where n: "slice_size r = Suc n"
    using assms(2) by (cases "slice_size r") auto
  show ?thesis
    using assms(1) by (simp add: slice_bytes_def n butlast_append)
qed


lemma InjectThreadSpecificReadError_logged:
  "read_injection_calls (fst (snd (snd (snd (InjectThreadSpecificReadError op result direct_io scratch need fs mem))))) =
     read_injection_calls fs @
       [\<lparr>call_op = op, call_need_count_increase = need,
         call_fault_injected =
           fst (snd (snd (InjectThreadSpecificReadError op result direct_io scratch need fs mem)))\<rparr>]"
  by (simp add: InjectThreadSpecificReadError_def log_injection_def Let_def case_prod_beta
      split: option.splits)

lemma ShouldInjectRandomReadError_calls [simp]:
  "read_injection_calls (snd (ShouldInjectRandomReadError fs)) = read_injection_calls fs"
  by (simp add: ShouldInjectRandomReadError_def Let_def case_prod_beta)

lemma inject_sub_requests_logged:
  "inject_sub_requests direct_io reqs injected fs mem = Inr (reqs', injected', fs', mem') \<Longrightarrow>
   \<exists>subs. length subs = length (takeWhile (\<lambda>r. ok (req_status r)) reqs) \<and>
          (\<forall>c\<in>set subs. call_op c = kMultiReadSingleReq \<and> call_need_count_increase c) \<and>
          read_injection_calls fs' = read_injection_calls fs @ subs \<and>
          injected' = (injected \<or> (\<exists>c\<in>set subs. call_fault_injected c))"
proof (induction reqs arbitrary: injected fs mem reqs' injected' fs' mem')
  case Nil
  then show ?case by simp
next
  case (Cons req reqs)
  show ?case
  proof (cases "ok (req_status req)")
    case False
    with Cons.prems show ?thesis by auto
  next
    case True
    let ?I = "InjectThreadSpecificReadError kMultiReadSingleReq (Some (req_result req)) direct_io
                (req_scratch req) True fs mem"
    obtain st r1 fi fs1 mem1 where I: "?I = (st, r1, fi, fs1, mem1)"
      by (cases ?I) auto
    from Cons.prems True I obtain s where st: "st = Inr s"
      by (cases st) auto
    from Cons.prems True I st obtain reqs2 where
      rec: "inject_sub_requests direct_io reqs (injected \<or> fi) fs1 mem1 = Inr (reqs2, injected', fs', mem')"
      by (auto split: sum.splits)
    from Cons.IH [OF rec] obtain subs where
      subs: "length subs = length (takeWhile (\<lambda>r. ok (req_status r)) reqs)"
        "\<forall>c\<in>set subs. call_op c = kMultiReadSingleReq \<and> call_need_count_increase c"
        "read_injection_calls fs' = read_injection_calls fs1 @ subs"
        "injected' = ((injected \<or> fi) \<or> (\<exists>c\<in>set subs. call_fault_injected c))"
      by blast
    let ?c = "\<lparr>call_op = kMultiReadSingleReq, call_need_count_increase = True, call_fault_injected = fi\<rparr>"
    have log1: "read_injection_calls fs1 = read_injection_calls fs @ [?c]"
      using InjectThreadSpecificReadError_logged [of kMultiReadSingleReq "Some (req_result req)"
          direct_io "req_scratch req" True fs mem] I by simp
    have "length (?c # subs) = length (takeWhile (\<lambda>r. ok (req_status r)) (req # reqs))"
      using True subs(1) by simp
    moreover have "\<forall>c\<in>set (?c # subs). call_op c = kMultiReadSingleReq \<and> call_need_count_increase c"
      using subs(2) by simp
    moreover have "read_injection_calls fs' = read_injection_calls fs @ (?c # subs)"
      using subs(3) log1 by simp
    moreover have "injected' = (injected \<or> (\<exists>c\<in>set (?c # subs). call_fault_injected c))"
      using subs(4) by auto
    ultimately show ?thesis by blast
  qed
qed

lemma DoMultiRead_calls:
  assumes "IsFilesystemActive fs"
    and "DoMultiRead (s, reqs1, mem1) direct_io reqs file fs mem = Inr (s', reqs', file', fs', mem')"
  shows "file' = file @ [File_MultiRead reqs] \<and>
         (\<exists>subs trailing.
            read_injection_calls fs' = read_injection_calls fs @ subs @ trailing \<and>
            length subs = length (takeWhile (\<lambda>r. ok (req_status r)) reqs1) \<and>
            (\<forall>c\<in>set subs. call_op c = kMultiReadSingleReq \<and> call_need_count_increase c) \<and>
            (if ok s
             then length trailing = 1 \<and> call_op (hd trailing) = kMultiRead \<and>
                  (call_need_count_increase (hd trailing) \<longleftrightarrow>
                     \<not> (\<exists>c\<in>set subs. call_fault_injected c))
             else trailing = []))"
proof -
  from assms obtain reqs2 injected fs2 mem2 where
    sub: "inject_sub_requests direct_io reqs1 False fs mem1 = Inr (reqs2, injected, fs2, mem2)"
    by (auto simp add: DoMultiRead_def Let_def split: sum.splits)
  from inject_sub_requests_logged [OF sub] obtain subs where
    subs: "length subs = length (takeWhile (\<lambda>r. ok (req_status r)) reqs1)"
      "\<forall>c\<in>set subs. call_op c = kMultiReadSingleReq \<and> call_need_count_increase c"
      "read_injection_calls fs2 = read_injection_calls fs @ subs"
      "injected = (\<exists>c\<in>set subs. call_fault_injected c)"
    by auto
  have delegated: "file' = file @ [File_MultiRead reqs]"
    using assms sub
    by (auto simp add: DoMultiRead_def Let_def case_prod_beta split: sum.splits if_splits prod.splits)
  show ?thesis
  proof (cases "ok s")
    case False
    with assms sub have "fs' = fs2"
      by (auto simp add: DoMultiRead_def Let_def split: sum.splits if_splits)
    with False subs delegated show ?thesis
      by (intro conjI exI [of _ subs] exI [of _ "[]"]) simp_all
  next
    case True
    let ?I = "InjectThreadSpecificReadError kMultiRead None direct_io nullptr (\<not> injected) fs2 mem2"
    let ?c = "\<lparr>call_op = kMultiRead, call_need_count_increase = \<not> injected,
               call_fault_injected = fst (snd (snd ?I))\<rparr>"
    have log: "read_injection_calls (fst (snd (snd (snd ?I)))) = read_injection_calls fs2 @ [?c]"
      by (rule InjectThreadSpecificReadError_logged)
    from assms sub True have "read_injection_calls fs' = read_injection_calls (fst (snd (snd (snd ?I))))"
      by (auto simp add: DoMultiRead_def Let_def case_prod_beta split: sum.splits if_splits)
    with log subs(3) have "read_injection_calls fs' = read_injection_calls fs @ subs @ [?c]"
      by simp
    with True subs delegated show ?thesis
      by (intro conjI exI [of _ subs] exI [of _ "[?c]"]) simp_all
  qed
qed



text \<open>The outcomes of \<^verbatim>\<open>InjectThreadSpecificReadError\<close>. Without a context for the thread,
  with injection disabled, or with \<open>one_in = 0\<close>, it returns OK and leaves \<open>false\<close> in the
  flag. When the rate draw fires: for an operation other than \<^verbatim>\<open>kMultiReadSingleReq\<close> it
  returns \<^verbatim>\<open>IOError\<close>; for \<^verbatim>\<open>kMultiReadSingleReq\<close>, when the 1-in-8 draw fires it makes
  \<^verbatim>\<open>*result\<close> the empty slice and returns OK; otherwise, without direct I/O, when the 1-in-7
  draw fires and a non-empty result lies in \<^verbatim>\<open>scratch\<close>, it increments the last byte of the
  result in place and returns OK; when the 1-in-8 draw does not fire and the condition of the
  1-in-7 branch fails, it returns \<^verbatim>\<open>IOError\<close>.\<close>

lemma InjectThreadSpecificReadError_outcomes:
  "(thread_local_error fs = None \<or>
      (\<exists>c. thread_local_error fs = Some c \<and> (\<not> enable_error_injection c \<or> one_in c = 0)) \<longrightarrow>
      fst (InjectThreadSpecificReadError op result direct_io scratch need fs mem) = Inr OK \<and>
      \<not> fst (snd (snd (InjectThreadSpecificReadError op result direct_io scratch need fs mem)))) \<and>
   (thread_local_error fs = Some ctx \<and> enable_error_injection ctx \<and> one_in ctx \<noteq> 0 \<and>
      fst (OneIn (rand ctx) (one_in ctx)) \<longrightarrow>
      (op \<noteq> kMultiReadSingleReq \<longrightarrow>
         fst (InjectThreadSpecificReadError op result direct_io scratch need fs mem) = Inr (IOError [])) \<and>
      (op = kMultiReadSingleReq \<and> result = Some r \<longrightarrow>
         (fst (OneIn (tls_random fs) 8) \<longrightarrow>
            fst (InjectThreadSpecificReadError op result direct_io scratch need fs mem) = Inr OK \<and>
            fst (snd (InjectThreadSpecificReadError op result direct_io scratch need fs mem)) = Some Slice_default \<and>
            slice_size Slice_default = 0) \<and>
         (\<not> fst (OneIn (tls_random fs) 8) \<and> \<not> direct_io \<and>
            fst (OneIn (snd (OneIn (tls_random fs) 8)) 7) \<and>
            scratch = Addr a \<and> slice_data r = scratch \<and> 0 < slice_size r \<longrightarrow>
            fst (InjectThreadSpecificReadError op result direct_io scratch need fs mem) = Inr OK \<and>
            fst (snd (InjectThreadSpecificReadError op result direct_io scratch need fs mem)) = Some r \<and>
            slice_bytes (snd (snd (snd (snd (InjectThreadSpecificReadError op result direct_io scratch need fs mem))))) r =
              butlast (slice_bytes mem r) @ [incr_char (last (slice_bytes mem r))]) \<and>
         (\<not> fst (OneIn (tls_random fs) 8) \<and>
            \<not> (\<not> direct_io \<and> fst (OneIn (snd (OneIn (tls_random fs) 8)) 7) \<and>
               scratch \<noteq> nullptr \<and> slice_data r = scratch) \<longrightarrow>
            fst (InjectThreadSpecificReadError op result direct_io scratch need fs mem) = Inr (IOError []))))"
proof (intro conjI impI)
  assume "thread_local_error fs = None \<or>
      (\<exists>c. thread_local_error fs = Some c \<and> (\<not> enable_error_injection c \<or> one_in c = 0))"
  then show "fst (InjectThreadSpecificReadError op result direct_io scratch need fs mem) = Inr OK"
    and "\<not> fst (snd (snd (InjectThreadSpecificReadError op result direct_io scratch need fs mem)))"
    by (auto simp add: InjectThreadSpecificReadError_def)
next
  assume h: "thread_local_error fs = Some ctx \<and> enable_error_injection ctx \<and> one_in ctx \<noteq> 0 \<and>
      fst (OneIn (rand ctx) (one_in ctx))"
  assume "op \<noteq> kMultiReadSingleReq"
  with h show "fst (InjectThreadSpecificReadError op result direct_io scratch need fs mem) = Inr (IOError [])"
    by (simp add: InjectThreadSpecificReadError_def inject_outcome_def Let_def case_prod_beta)
next
  assume h: "thread_local_error fs = Some ctx \<and> enable_error_injection ctx \<and> one_in ctx \<noteq> 0 \<and>
      fst (OneIn (rand ctx) (one_in ctx))"
  assume r: "op = kMultiReadSingleReq \<and> result = Some r"
  assume d8: "fst (OneIn (tls_random fs) 8)"
  from h r d8 show "fst (InjectThreadSpecificReadError op result direct_io scratch need fs mem) = Inr OK"
    and "fst (snd (InjectThreadSpecificReadError op result direct_io scratch need fs mem)) = Some Slice_default"
    by (simp_all add: InjectThreadSpecificReadError_def inject_outcome_def Let_def case_prod_beta)
  show "slice_size Slice_default = 0"
    by (simp add: Slice_default_def)
next
  assume h: "thread_local_error fs = Some ctx \<and> enable_error_injection ctx \<and> one_in ctx \<noteq> 0 \<and>
      fst (OneIn (rand ctx) (one_in ctx))"
  assume r: "op = kMultiReadSingleReq \<and> result = Some r"
  assume c: "\<not> fst (OneIn (tls_random fs) 8) \<and> \<not> direct_io \<and>
            fst (OneIn (snd (OneIn (tls_random fs) 8)) 7) \<and>
            scratch = Addr a \<and> slice_data r = scratch \<and> 0 < slice_size r"
  have cl: "corrupt_last_byte r mem =
      Inr (mem(a + (slice_size r - 1) := incr_char (mem (a + (slice_size r - 1)))))"
    using c by (simp add: corrupt_last_byte_def)
  from h r c cl show "fst (InjectThreadSpecificReadError op result direct_io scratch need fs mem) = Inr OK"
    and "fst (snd (InjectThreadSpecificReadError op result direct_io scratch need fs mem)) = Some r"
    by (simp_all add: InjectThreadSpecificReadError_def inject_outcome_def Let_def case_prod_beta)
  from h r c cl have "snd (snd (snd (snd (InjectThreadSpecificReadError op result direct_io scratch need fs mem)))) =
      mem(a + (slice_size r - 1) := incr_char (mem (a + (slice_size r - 1))))"
    by (simp add: InjectThreadSpecificReadError_def inject_outcome_def Let_def case_prod_beta)
  then show "slice_bytes (snd (snd (snd (snd (InjectThreadSpecificReadError op result direct_io scratch need fs mem))))) r =
              butlast (slice_bytes mem r) @ [incr_char (last (slice_bytes mem r))]"
    using c slice_bytes_corrupt [of r a mem] by simp
next
  assume h: "thread_local_error fs = Some ctx \<and> enable_error_injection ctx \<and> one_in ctx \<noteq> 0 \<and>
      fst (OneIn (rand ctx) (one_in ctx))"
  assume r: "op = kMultiReadSingleReq \<and> result = Some r"
  assume c: "\<not> fst (OneIn (tls_random fs) 8) \<and>
            \<not> (\<not> direct_io \<and> fst (OneIn (snd (OneIn (tls_random fs) 8)) 7) \<and>
               scratch \<noteq> nullptr \<and> slice_data r = scratch)"
  from h r c show "fst (InjectThreadSpecificReadError op result direct_io scratch need fs mem) = Inr (IOError [])"
    by (auto simp add: InjectThreadSpecificReadError_def inject_outcome_def Let_def case_prod_beta)
qed

lemma InjectThreadSpecificReadError_outcomes_example:
  "fst (InjectThreadSpecificReadError kMultiReadSingleReq
         (Some \<lparr>slice_data = Addr 10, slice_size = 4\<rparr>) False (Addr 10) True
         (quiet_fs\<lparr>thread_local_error := Some \<lparr>rand = (\<lambda>i. 0), enable_error_injection = True,
              one_in = 1, count = 0, ctx_message = []\<rparr>,
            tls_random := (\<lambda>i. if i = 0 then 1 else 0)\<rparr>) (\<lambda>i. CHR ''a'')) = Inr OK \<and>
   slice_bytes (snd (snd (snd (snd (InjectThreadSpecificReadError kMultiReadSingleReq
         (Some \<lparr>slice_data = Addr 10, slice_size = 4\<rparr>) False (Addr 10) True
         (quiet_fs\<lparr>thread_local_error := Some \<lparr>rand = (\<lambda>i. 0), enable_error_injection = True,
              one_in = 1, count = 0, ctx_message = []\<rparr>,
            tls_random := (\<lambda>i. if i = 0 then 1 else 0)\<rparr>) (\<lambda>i. CHR ''a'')))))) 
      \<lparr>slice_data = Addr 10, slice_size = 4\<rparr> = ''aaab'' \<and>
   fst (InjectThreadSpecificReadError kRead None False nullptr True quiet_fs (\<lambda>i. CHR ''a'')) = Inr OK \<and>
   fst (InjectThreadSpecificReadError kRead None False nullptr True
         (quiet_fs\<lparr>thread_local_error := Some \<lparr>rand = (\<lambda>i. 0), enable_error_injection = True,
              one_in = 1, count = 0, ctx_message = []\<rparr>\<rparr>) (\<lambda>i. CHR ''a'')) = Inr (IOError [])"
proof -
  let ?ctx = "\<lparr>rand = (\<lambda>i. 0), enable_error_injection = True, one_in = 1, count = 0, ctx_message = []\<rparr>"
  let ?fs = "quiet_fs\<lparr>thread_local_error := Some ?ctx, tls_random := (\<lambda>i. if i = 0 then 1 else 0)\<rparr>"
  let ?fs2 = "quiet_fs\<lparr>thread_local_error := Some ?ctx\<rparr>"
  let ?r = "\<lparr>slice_data = Addr 10, slice_size = 4\<rparr>"
  let ?mem = "\<lambda>i::nat. CHR ''a''"
  have ctx: "thread_local_error ?fs = Some ?ctx \<and> enable_error_injection ?ctx \<and> one_in ?ctx \<noteq> 0 \<and>
      fst (OneIn (rand ?ctx) (one_in ?ctx))"
    by (simp add: OneIn_def Uniform_def)
  have ctx2: "thread_local_error ?fs2 = Some ?ctx \<and> enable_error_injection ?ctx \<and> one_in ?ctx \<noteq> 0 \<and>
      fst (OneIn (rand ?ctx) (one_in ?ctx))"
    by (simp add: OneIn_def Uniform_def)
  have draws: "\<not> fst (OneIn (tls_random ?fs) 8) \<and> \<not> False \<and>
      fst (OneIn (snd (OneIn (tls_random ?fs) 8)) 7) \<and>
      Addr 10 = Addr 10 \<and> slice_data ?r = Addr 10 \<and> 0 < slice_size ?r"
    by (simp add: OneIn_def Uniform_def)
  have none: "thread_local_error quiet_fs = None"
    by (simp add: quiet_fs_def)
  have incr: "incr_char CHR ''a'' = CHR ''b''"
    by code_simp
  have bytes: "butlast (slice_bytes ?mem ?r) @ [incr_char (last (slice_bytes ?mem ?r))] = ''aaab''"
    by (simp add: slice_bytes_def incr upt_rec)
  show ?thesis
    using ctx ctx2 draws none bytes
      InjectThreadSpecificReadError_outcomes [of ?fs kMultiReadSingleReq "Some ?r" False "Addr 10" True ?mem ?ctx ?r 10]
      InjectThreadSpecificReadError_outcomes [of quiet_fs kRead None False nullptr True ?mem ?ctx ?r 10]
      InjectThreadSpecificReadError_outcomes [of ?fs2 kRead None False nullptr True ?mem ?ctx ?r 10]
    by simp
qed

section \<open>Claims\<close>

text \<open>
  C10. Path-split round trip. For every path \<open>p\<close> that has a separator (\<^verbatim>\<open>/\<close> or
  backslash) and whose last separator is the character \<^verbatim>\<open>/\<close>,
  \<^verbatim>\<open>TestFSGetDirAndName(p)\<close> returns a pair \<open>(dir, name)\<close> with
  \<open>dir + "/" + name = p\<close>, the path that \<^verbatim>\<open>DeleteFilesCreatedAfterLastDirSync\<close>
  rebuilds from the two keys.
\<close>

theorem TestFSGetDirAndName_roundtrip:
  assumes "find_last_of p path_separators = Some i" and "p ! i = CHR ''/''"
  shows "\<exists>dir name. TestFSGetDirAndName p = Inr (dir, name) \<and> new_file_path dir name = p"
proof -
  have less: "i < length p"
    using assms(1) by (rule find_last_of_less)
  have "TestFSGetDirAndName p = Inr (take i p, drop (Suc i) p)"
    using assms(1) less
    by (simp add: TestFSGetDirAndName_def TestFSGetDirName_def substr_def substr0_def)
  moreover have "new_file_path (take i p) (drop (Suc i) p) = p"
    using find_last_of_split [OF assms(1)] assms(2) by (simp add: new_file_path_def)
  ultimately show ?thesis by blast
qed

theorem TestFSGetDirAndName_roundtrip_witness:
  "find_last_of ''/db/a.log'' path_separators = Some 3 \<and> ''/db/a.log'' ! 3 = CHR ''/'' \<and>
   (\<exists>dir name. TestFSGetDirAndName ''/db/a.log'' = Inr (dir, name) \<and>
      new_file_path dir name = ''/db/a.log'')"
proof -
  have a: "find_last_of ''/db/a.log'' path_separators = Some 3"
    by (simp add: path_separators_def)
  have b: "''/db/a.log'' ! 3 = CHR ''/''"
    by simp
  show ?thesis
    using a b TestFSGetDirAndName_roundtrip [OF a b] by blast
qed

text \<open>
  C1. The specification states that after any sequence of wrapper operations the three
  positions of a writable file satisfy \<open>0 \<le> pos_at_last_sync \<le> pos_at_last_flush \<le> pos\<close>.
  The code does not keep this: after \<^verbatim>\<open>Append("a"); Flush; Sync\<close> the ordering holds, and
  a further \<^verbatim>\<open>Append("b"); Sync\<close> leaves \<open>pos_at_last_sync = 2\<close> ahead of
  \<open>pos_at_last_flush = 1\<close>, since \<^verbatim>\<open>Sync\<close> never moves \<open>pos_at_last_flush\<close>; and
  \<^verbatim>\<open>RangeSync(100, 0)\<close> on a new file stores 100 in \<open>pos_at_last_sync\<close> while \<open>pos\<close> is 0.
\<close>

theorem positions_ordered_counterexample:
  "positions_ordered (state (wf_run toy_primitives
      [(Op_Append ''a'', quiet_fs), (Op_Flush, quiet_fs), (Op_Sync OK, quiet_fs)]
      (TestFSWritableFile_new ''/db/a.log'' False))) \<and>
   \<not> positions_ordered (state (wf_run toy_primitives
      [(Op_Append ''a'', quiet_fs), (Op_Flush, quiet_fs), (Op_Sync OK, quiet_fs),
       (Op_Append ''b'', quiet_fs), (Op_Sync OK, quiet_fs)]
      (TestFSWritableFile_new ''/db/a.log'' False))) \<and>
   \<not> pos_at_last_sync (state (wf_run toy_primitives [(Op_RangeSync 100 0 OK, quiet_fs)]
        (TestFSWritableFile_new ''/db/a.log'' False)))
     \<le> pos (state (wf_run toy_primitives [(Op_RangeSync 100 0 OK, quiet_fs)]
        (TestFSWritableFile_new ''/db/a.log'' False)))"
  by (simp add: wf_run_def Append_def Flush_def Sync_def RangeSync_def Let_def
      IsFilesystemActive_def quiet_fs_def InjectWriteError_def WritableFileAppended_def
      WritableFileSynced_def TestFSWritableFile_new_def FSFileState_new_def
      positions_ordered_def call_target_def OK_def)

text \<open>
  C1, as the code has it. From a newly opened wrapper (\<open>pos = 0\<close>, both recorded positions
  \<open>-1\<close>), after any sequence of \<^verbatim>\<open>Append\<close>, \<^verbatim>\<open>PositionedAppend\<close>, \<^verbatim>\<open>Flush\<close>,
  \<^verbatim>\<open>Sync\<close>, \<^verbatim>\<open>RangeSync\<close> and \<^verbatim>\<open>Close\<close>, whatever the facade state each of them meets
  and whatever the wrapped file answers: \<open>0 \<le> pos\<close> and \<open>-1 \<le> pos_at_last_flush \<le> pos\<close>; and
  when the sequence has no \<^verbatim>\<open>RangeSync\<close>, also \<open>-1 \<le> pos_at_last_sync \<le> pos\<close>. No order
  between \<open>pos_at_last_sync\<close> and \<open>pos_at_last_flush\<close> is kept.
\<close>

theorem positions_after_run:
  "flush_bounded (state (wf_run P ops (TestFSWritableFile_new fname d))) \<and>
   ((\<forall>x\<in>set ops. \<not> is_RangeSync (fst x)) \<longrightarrow>
      positions_bounded (state (wf_run P ops (TestFSWritableFile_new fname d))))"
  by (simp add: wf_run_flush_bounded new_flush_bounded wf_run_bounded new_bounded)

theorem positions_after_run_witness:
  "\<not> is_RangeSync (fst (Op_Append ''a'', quiet_fs)) \<and> \<not> is_RangeSync (fst (Op_Sync OK, quiet_fs)) \<and>
   positions_bounded (state (wf_run toy_primitives [(Op_Append ''a'', quiet_fs), (Op_Sync OK, quiet_fs)]
      (TestFSWritableFile_new ''/db/a.log'' False)))"
  using positions_after_run [of toy_primitives "[(Op_Append ''a'', quiet_fs), (Op_Sync OK, quiet_fs)]"
      "''/db/a.log''" False]
  by simp

text \<open>
  C3. \<^verbatim>\<open>Append(data, verification)\<close> on an active facade with checksum hand-off enabled
  (type other than \<^verbatim>\<open>kNoChecksum\<close>) and corruption-before-write off, on a wrapper that does
  not use direct I/O. When the caller's checksum equals the recomputed one, the data is
  appended to the buffer, \<open>pos\<close> advances by its length, and the status is the one of the
  write-error injector: OK, or, only with write-error injection enabled at a non-zero rate,
  the injected error (or the \<^verbatim>\<open>std::out_of_range\<close> of \<^verbatim>\<open>TryParseFileName\<close> on a name
  without \<^verbatim>\<open>/\<close>). When they differ, the call returns \<^verbatim>\<open>Corruption\<close> with a message that
  contains both checksums, and the wrapper and the facade are unchanged.
\<close>

theorem Append_verified_handoff:
  assumes "IsFilesystemActive fs" and "\<not> target_use_direct_io w"
    and "GetChecksumHandoffFuncType fs \<noteq> kNoChecksum"
    and "\<not> ShouldDataCorruptionBeforeWrite fs"
  shows "(c = CalculateTypedChecksum P (GetChecksumHandoffFuncType fs) data [] \<longrightarrow>
            state (fst (snd (Append_verified P data c w fs))) =
              (state w)\<lparr>buffer := buffer (state w) @ data, pos := pos (state w) + int (length data)\<rparr> \<and>
            fst (Append_verified P data c w fs) =
              fst (InjectWriteError P (filename (state w))
                     (WritableFileAppended (state (fst (snd (Append_verified P data c w fs)))) fs)) \<and>
            (fst (Append_verified P data c w fs) = Inr OK \<or>
             enable_write_error_injection fs \<and> write_error_one_in fs \<noteq> 0 \<and>
               (fst (Append_verified P data c w fs) = Inr (GetError fs) \<or>
                fst (Append_verified P data c w fs) = Inl OutOfRange))) \<and>
         (c \<noteq> CalculateTypedChecksum P (GetChecksumHandoffFuncType fs) data [] \<longrightarrow>
            (\<exists>m. Append_verified P data c w fs = (Inr (Corruption m), w, fs) \<and>
                 sublist c m \<and>
                 sublist (CalculateTypedChecksum P (GetChecksumHandoffFuncType fs) data []) m))"
proof (intro conjI impI)
  let ?st = "(state w)\<lparr>buffer := buffer (state w) @ data, pos := pos (state w) + int (length data)\<rparr>"
  assume eq: "c = CalculateTypedChecksum P (GetChecksumHandoffFuncType fs) data []"
  have run: "Append_verified P data c w fs =
      (fst (InjectWriteError P (filename (state w)) (WritableFileAppended ?st fs)),
       w\<lparr>state := ?st\<rparr>,
       snd (InjectWriteError P (filename (state w)) (WritableFileAppended ?st fs)))"
    using assms eq by (simp add: Append_verified_def Let_def split: prod.splits)
  show "state (fst (snd (Append_verified P data c w fs))) = ?st"
    by (simp add: run)
  show "fst (Append_verified P data c w fs) =
      fst (InjectWriteError P (filename (state w))
             (WritableFileAppended (state (fst (snd (Append_verified P data c w fs)))) fs))"
    by (simp add: run)
  have same: "enable_write_error_injection (WritableFileAppended ?st fs) = enable_write_error_injection fs"
    "write_error_one_in (WritableFileAppended ?st fs) = write_error_one_in fs"
    "GetError (WritableFileAppended ?st fs) = GetError fs"
    by (simp_all add: WritableFileAppended_def GetError_def)
  show "fst (Append_verified P data c w fs) = Inr OK \<or>
     enable_write_error_injection fs \<and> write_error_one_in fs \<noteq> 0 \<and>
       (fst (Append_verified P data c w fs) = Inr (GetError fs) \<or>
        fst (Append_verified P data c w fs) = Inl OutOfRange)"
    using InjectWriteError_status [of P "filename (state w)" "WritableFileAppended ?st fs"]
    by (simp add: run same)
next
  let ?k = "CalculateTypedChecksum P (GetChecksumHandoffFuncType fs) data []"
  assume ne: "c \<noteq> ?k"
  have run: "Append_verified P data c w fs = (Inr (Corruption (corrupted_msg c ?k)), w, fs)"
    using assms ne by (simp add: Append_verified_def Let_def)
  show "\<exists>m. Append_verified P data c w fs = (Inr (Corruption m), w, fs) \<and> sublist c m \<and> sublist ?k m"
    using run corrupted_msg_contains [of c ?k] by blast
qed

theorem Append_verified_handoff_witness:
  "IsFilesystemActive quiet_fs \<and> \<not> target_use_direct_io (TestFSWritableFile_new ''/db/a.log'' False) \<and>
   GetChecksumHandoffFuncType quiet_fs \<noteq> kNoChecksum \<and> \<not> ShouldDataCorruptionBeforeWrite quiet_fs \<and>
   CalculateTypedChecksum toy_primitives (GetChecksumHandoffFuncType quiet_fs) ''payload'' [] \<noteq> ''beef'' \<and>
   buffer (state (fst (snd (Append_verified toy_primitives ''payload''
      (CalculateTypedChecksum toy_primitives (GetChecksumHandoffFuncType quiet_fs) ''payload'' [])
      (TestFSWritableFile_new ''/db/a.log'' False) quiet_fs)))) = ''payload'' \<and>
   (\<exists>m. Append_verified toy_primitives ''payload'' ''beef'' (TestFSWritableFile_new ''/db/a.log'' False) quiet_fs =
      (Inr (Corruption m), TestFSWritableFile_new ''/db/a.log'' False, quiet_fs))"
proof -
  let ?w = "TestFSWritableFile_new ''/db/a.log'' False"
  have a: "IsFilesystemActive quiet_fs"
    by (simp add: IsFilesystemActive_def quiet_fs_def)
  have b: "\<not> target_use_direct_io ?w"
    by (simp add: TestFSWritableFile_new_def)
  have c: "GetChecksumHandoffFuncType quiet_fs \<noteq> kNoChecksum"
    by (simp add: GetChecksumHandoffFuncType_def quiet_fs_def)
  have d: "\<not> ShouldDataCorruptionBeforeWrite quiet_fs"
    by (simp add: ShouldDataCorruptionBeforeWrite_def quiet_fs_def)
  have e: "CalculateTypedChecksum toy_primitives (GetChecksumHandoffFuncType quiet_fs) ''payload'' [] \<noteq> ''beef''"
    by (simp add: CalculateTypedChecksum_def GetChecksumHandoffFuncType_def quiet_fs_def PutFixed32_def
        toy_primitives_def)
  have f: "buffer (state ?w) = []"
    by (simp add: TestFSWritableFile_new_def FSFileState_new_def)
  show ?thesis
    using a b c d e f
      Append_verified_handoff [OF a b c d, of "CalculateTypedChecksum toy_primitives (GetChecksumHandoffFuncType quiet_fs) ''payload'' []" toy_primitives "''payload''"]
      Append_verified_handoff [OF a b c d, of "''beef''" toy_primitives "''payload''"]
    by auto
qed

text \<open>
  C5. \<^verbatim>\<open>Sync\<close> on an active facade and a wrapper that does not use direct I/O returns the
  status of the append to the wrapped file; it appends the whole buffer to the wrapped file
  and then syncs it, empties the buffer, sets \<open>pos_at_last_sync\<close> to \<open>pos\<close>, and notifies
  the facade with the new state. In particular the buffer is empty and
  \<open>pos_at_last_sync = pos\<close> after a \<^verbatim>\<open>Sync\<close> that returns OK.
\<close>

theorem Sync_flushes_buffer:
  assumes "IsFilesystemActive fs" and "\<not> target_use_direct_io w"
  shows "fst (Sync append_s w fs) = append_s \<and>
         buffer (state (fst (snd (Sync append_s w fs)))) = [] \<and>
         pos_at_last_sync (state (fst (snd (Sync append_s w fs)))) = pos (state (fst (snd (Sync append_s w fs)))) \<and>
         state (fst (snd (Sync append_s w fs))) = (state w)\<lparr>buffer := [], pos_at_last_sync := pos (state w)\<rparr> \<and>
         file_calls (fst (snd (Sync append_s w fs))) =
           file_calls w @ [Target_Append (buffer (state w)), Target_Sync] \<and>
         snd (snd (Sync append_s w fs)) = WritableFileSynced (state (fst (snd (Sync append_s w fs)))) fs"
  using assms by (simp add: Sync_def Let_def call_target_def)

theorem Sync_flushes_buffer_witness:
  "IsFilesystemActive quiet_fs \<and>
   \<not> target_use_direct_io (fst (snd (Append toy_primitives ''abcd'' (TestFSWritableFile_new ''/db/b.log'' False) quiet_fs))) \<and>
   fst (Sync OK (fst (snd (Append toy_primitives ''abcd'' (TestFSWritableFile_new ''/db/b.log'' False) quiet_fs))) quiet_fs) = OK \<and>
   file_calls (fst (snd (Sync OK (fst (snd (Append toy_primitives ''abcd'' (TestFSWritableFile_new ''/db/b.log'' False) quiet_fs))) quiet_fs)))
     = [Target_Append ''abcd'', Target_Sync] \<and>
   pos_at_last_sync (state (fst (snd (Sync OK (fst (snd (Append toy_primitives ''abcd'' (TestFSWritableFile_new ''/db/b.log'' False) quiet_fs))) quiet_fs)))) = 4"
proof -
  let ?w = "fst (snd (Append toy_primitives ''abcd'' (TestFSWritableFile_new ''/db/b.log'' False) quiet_fs))"
  have a: "IsFilesystemActive quiet_fs"
    by (simp add: IsFilesystemActive_def quiet_fs_def)
  have w: "?w = \<lparr>state = \<lparr>filename = ''/db/b.log'', pos = 4, pos_at_last_sync = -1,
      pos_at_last_flush = -1, buffer = ''abcd''\<rparr>, target_use_direct_io = False,
      writable_file_opened = True, file_calls = []\<rparr>"
    by (simp add: Append_def Let_def IsFilesystemActive_def quiet_fs_def InjectWriteError_def
        WritableFileAppended_def TestFSWritableFile_new_def FSFileState_new_def)
  have b: "\<not> target_use_direct_io ?w"
    by (simp add: w)
  show ?thesis
    using a b Sync_flushes_buffer [OF a b, of OK] by (simp add: w)
qed

text \<open>
  C8. \<^verbatim>\<open>ResetState\<close> is idempotent: a second call leaves the facade as the first did.
  Each call empties \<^verbatim>\<open>db_file_state_\<close> and \<^verbatim>\<open>dir_to_new_files_since_last_sync_\<close> and sets
  the active flag.
\<close>

theorem ResetState_idempotent:
  "ResetState (ResetState fs) = ResetState fs \<and>
   db_file_state (ResetState fs) = Map.empty \<and>
   dir_to_new_files_since_last_sync (ResetState fs) = Map.empty \<and>
   IsFilesystemActive (ResetState fs)"
  by (simp add: ResetState_def SetFilesystemActiveNoLock_def IsFilesystemActive_def)

text \<open>
  C4. The specification states that after \<^verbatim>\<open>RenameFile(s, t)\<close> returns OK the map
  \<^verbatim>\<open>db_file_state_\<close> has an entry for \<open>t\<close> exactly when it had one for \<open>s\<close> before.
  The code moves the entry of \<open>s\<close> only when there is one and otherwise leaves the map as
  it is: renaming an untracked \<^verbatim>\<open>/db/s\<close> onto a tracked \<^verbatim>\<open>/db/t\<close> keeps the entry of
  \<^verbatim>\<open>/db/t\<close>; and renaming a tracked file onto itself erases its entry.
\<close>

theorem RenameFile_bookkeeping_counterexample:
  "fst (RenameFile (IOStatus kNotFound []) (OK, 0) [] OK ''/db/s'' ''/db/t''
          (quiet_fs\<lparr>db_file_state := [''/db/t'' \<mapsto> FSFileState_new ''/db/t'']\<rparr>)) = Inr OK \<and>
   db_file_state (quiet_fs\<lparr>db_file_state := [''/db/t'' \<mapsto> FSFileState_new ''/db/t'']\<rparr>) ''/db/s'' = None \<and>
   db_file_state (snd (RenameFile (IOStatus kNotFound []) (OK, 0) [] OK ''/db/s'' ''/db/t''
          (quiet_fs\<lparr>db_file_state := [''/db/t'' \<mapsto> FSFileState_new ''/db/t'']\<rparr>))) ''/db/t'' \<noteq> None \<and>
   fst (RenameFile (IOStatus kNotFound []) (OK, 0) [] OK ''/db/t'' ''/db/t''
          (quiet_fs\<lparr>db_file_state := [''/db/t'' \<mapsto> FSFileState_new ''/db/t'']\<rparr>)) = Inr OK \<and>
   db_file_state (quiet_fs\<lparr>db_file_state := [''/db/t'' \<mapsto> FSFileState_new ''/db/t'']\<rparr>) ''/db/t'' \<noteq> None \<and>
   db_file_state (snd (RenameFile (IOStatus kNotFound []) (OK, 0) [] OK ''/db/t'' ''/db/t''
          (quiet_fs\<lparr>db_file_state := [''/db/t'' \<mapsto> FSFileState_new ''/db/t'']\<rparr>))) ''/db/t'' = None"
  by (simp add: RenameFile_def Let_def IsFilesystemActive_def quiet_fs_def InjectMetadataWriteError_def
      ok_def OK_def call_fs_def TestFSGetDirAndName_def TestFSGetDirName_def path_separators_def
      substr_def substr0_def map_index_def kNewFileNoOverwrite_def)


text \<open>
  C4, as the code has it. After \<^verbatim>\<open>RenameFile(s, t)\<close> on an active facade returns OK, the
  map has no entry for \<open>s\<close>; for \<open>s \<noteq> t\<close> it has an entry for \<open>t\<close> exactly when it had
  one for \<open>s\<close> or for \<open>t\<close> before, and that entry is the former entry of \<open>s\<close> when
  there was one; when \<open>s\<close> had no entry the map is unchanged.
\<close>

theorem RenameFile_bookkeeping:
  assumes "IsFilesystemActive fs"
    and "fst (RenameFile exists_s size_answer read_contents rename_s s t fs) = Inr st"
    and "ok st"
  shows "db_file_state (snd (RenameFile exists_s size_answer read_contents rename_s s t fs)) s = None \<and>
         (s \<noteq> t \<longrightarrow>
            (db_file_state (snd (RenameFile exists_s size_answer read_contents rename_s s t fs)) t \<noteq> None
               \<longleftrightarrow> db_file_state fs s \<noteq> None \<or> db_file_state fs t \<noteq> None)) \<and>
         (s \<noteq> t \<and> db_file_state fs s \<noteq> None \<longrightarrow>
            db_file_state (snd (RenameFile exists_s size_answer read_contents rename_s s t fs)) t
              = db_file_state fs s) \<and>
         (db_file_state fs s = None \<longrightarrow>
            db_file_state (snd (RenameFile exists_s size_answer read_contents rename_s s t fs))
              = db_file_state fs)"
proof -
  obtain fs' where run: "RenameFile exists_s size_answer read_contents rename_s s t fs = (Inr st, fs')"
    using assms(2) by (cases "RenameFile exists_s size_answer read_contents rename_s s t fs") simp
  have db: "db_file_state fs' =
     (if db_file_state fs s \<noteq> None
      then ((db_file_state fs)(t := db_file_state fs s))(s := None)
      else db_file_state fs)"
    using assms(1) run assms(3) by (rule RenameFile_db)
  show ?thesis
    unfolding run by (cases "db_file_state fs s") (auto simp: db)
qed

theorem RenameFile_bookkeeping_witness:
  "IsFilesystemActive (quiet_fs\<lparr>db_file_state := [''/db/s'' \<mapsto> FSFileState_new ''/db/s'']\<rparr>) \<and>
   fst (RenameFile (IOStatus kNotFound []) (OK, 0) [] OK ''/db/s'' ''/db/t''
          (quiet_fs\<lparr>db_file_state := [''/db/s'' \<mapsto> FSFileState_new ''/db/s'']\<rparr>)) = Inr OK \<and>
   ok OK \<and>
   db_file_state (snd (RenameFile (IOStatus kNotFound []) (OK, 0) [] OK ''/db/s'' ''/db/t''
          (quiet_fs\<lparr>db_file_state := [''/db/s'' \<mapsto> FSFileState_new ''/db/s'']\<rparr>))) ''/db/s'' = None \<and>
   db_file_state (snd (RenameFile (IOStatus kNotFound []) (OK, 0) [] OK ''/db/s'' ''/db/t''
          (quiet_fs\<lparr>db_file_state := [''/db/s'' \<mapsto> FSFileState_new ''/db/s'']\<rparr>))) ''/db/t''
     = Some (FSFileState_new ''/db/s'')"
proof -
  let ?fs = "quiet_fs\<lparr>db_file_state := [''/db/s'' \<mapsto> FSFileState_new ''/db/s'']\<rparr>"
  have a: "IsFilesystemActive ?fs"
    by (simp add: IsFilesystemActive_def quiet_fs_def)
  have b: "fst (RenameFile (IOStatus kNotFound []) (OK, 0) [] OK ''/db/s'' ''/db/t'' ?fs) = Inr OK"
    by (simp add: RenameFile_def Let_def IsFilesystemActive_def quiet_fs_def InjectMetadataWriteError_def
      ok_def OK_def call_fs_def TestFSGetDirAndName_def TestFSGetDirName_def path_separators_def
      substr_def substr0_def map_index_def kNewFileNoOverwrite_def)
  have c: "ok OK"
    by (simp add: ok_def OK_def)
  have d: "db_file_state ?fs ''/db/s'' = Some (FSFileState_new ''/db/s'')"
    by simp
  show ?thesis
    using a b c d RenameFile_bookkeeping [OF a b c] by simp
qed

text \<open>
  C9. The specification's reading of the code: \<^verbatim>\<open>ResetState\<close> leaves
  \<^verbatim>\<open>open_managed_files_\<close> unchanged, so that a later \<^verbatim>\<open>Append\<close>, \<^verbatim>\<open>Sync\<close> or
  \<^verbatim>\<open>Close\<close> of an open wrapper puts its state back into the emptied map. The first half
  holds. The second fails for a wrapper whose file uses direct I/O: its \<^verbatim>\<open>Append\<close> and
  \<^verbatim>\<open>Sync\<close> return OK without notifying the facade, and the map stays empty.
\<close>

theorem ResetState_keeps_open_files_counterexample:
  "''/db/a.log'' \<in> open_managed_files (ResetState (quiet_fs\<lparr>open_managed_files := {''/db/a.log''}\<rparr>)) \<and>
   filename (state (TestFSWritableFile_new ''/db/a.log'' True)) = ''/db/a.log'' \<and>
   fst (Append toy_primitives ''x'' (TestFSWritableFile_new ''/db/a.log'' True)
          (ResetState (quiet_fs\<lparr>open_managed_files := {''/db/a.log''}\<rparr>))) = Inr OK \<and>
   db_file_state (snd (snd (Append toy_primitives ''x'' (TestFSWritableFile_new ''/db/a.log'' True)
          (ResetState (quiet_fs\<lparr>open_managed_files := {''/db/a.log''}\<rparr>))))) ''/db/a.log'' = None \<and>
   fst (Sync OK (TestFSWritableFile_new ''/db/a.log'' True)
          (ResetState (quiet_fs\<lparr>open_managed_files := {''/db/a.log''}\<rparr>))) = OK \<and>
   db_file_state (snd (snd (Sync OK (TestFSWritableFile_new ''/db/a.log'' True)
          (ResetState (quiet_fs\<lparr>open_managed_files := {''/db/a.log''}\<rparr>))))) ''/db/a.log'' = None"
  by (simp add: Append_def Sync_def Let_def ResetState_def SetFilesystemActiveNoLock_def
      IsFilesystemActive_def quiet_fs_def InjectWriteError_def TestFSWritableFile_new_def
      FSFileState_new_def call_target_def)


text \<open>
  C9, as the code has it. \<^verbatim>\<open>ResetState\<close> leaves \<^verbatim>\<open>open_managed_files_\<close> unchanged. For
  a wrapper whose file name is in that set, right after the reset: an \<^verbatim>\<open>Append\<close> or a
  \<^verbatim>\<open>Sync\<close> of a wrapper that does not use direct I/O, and a \<^verbatim>\<open>Close\<close> that returns OK,
  store the wrapper's state under its file name in \<^verbatim>\<open>db_file_state_\<close>.
\<close>

theorem ResetState_keeps_open_files:
  "open_managed_files (ResetState fs) = open_managed_files fs \<and>
   (filename (state w) \<in> open_managed_files fs \<longrightarrow>
      (\<not> target_use_direct_io w \<longrightarrow>
         db_file_state (snd (snd (Append P data w (ResetState fs)))) (filename (state w)) =
           Some (state (fst (snd (Append P data w (ResetState fs))))) \<and>
         db_file_state (snd (snd (Sync append_s w (ResetState fs)))) (filename (state w)) =
           Some (state (fst (snd (Sync append_s w (ResetState fs)))))) \<and>
      (ok (fst (Close append_s close_s w (ResetState fs))) \<longrightarrow>
         db_file_state (snd (snd (Close append_s close_s w (ResetState fs)))) (filename (state w)) =
           Some (state (fst (snd (Close append_s close_s w (ResetState fs)))))))"
proof (intro conjI impI)
  show "open_managed_files (ResetState fs) = open_managed_files fs" by simp
next
  assume "filename (state w) \<in> open_managed_files fs" and "\<not> target_use_direct_io w"
  then show "db_file_state (snd (snd (Append P data w (ResetState fs)))) (filename (state w)) =
           Some (state (fst (snd (Append P data w (ResetState fs)))))"
    by (simp add: Append_def Let_def case_prod_beta WritableFileAppended_def)
next
  assume "filename (state w) \<in> open_managed_files fs" and "\<not> target_use_direct_io w"
  then show "db_file_state (snd (snd (Sync append_s w (ResetState fs)))) (filename (state w)) =
           Some (state (fst (snd (Sync append_s w (ResetState fs)))))"
    by (simp add: Sync_def Let_def WritableFileSynced_def)
next
  assume "filename (state w) \<in> open_managed_files fs"
    and "ok (fst (Close append_s close_s w (ResetState fs)))"
  then show "db_file_state (snd (snd (Close append_s close_s w (ResetState fs)))) (filename (state w)) =
           Some (state (fst (snd (Close append_s close_s w (ResetState fs)))))"
    using InjectMetadataWriteError_not_ok [of "ResetState fs"]
    by (auto simp add: Close_def Let_def case_prod_beta WritableFileClosed_def
        InjectMetadataWriteError_frame ok_def IOError_def split: if_splits)
qed

theorem ResetState_keeps_open_files_witness:
  "''/db/a.log'' \<in> open_managed_files (quiet_fs\<lparr>open_managed_files := {''/db/a.log''}\<rparr>) \<and>
   \<not> target_use_direct_io (TestFSWritableFile_new ''/db/a.log'' False) \<and>
   ok (fst (Close OK OK (TestFSWritableFile_new ''/db/a.log'' False)
         (ResetState (quiet_fs\<lparr>open_managed_files := {''/db/a.log''}\<rparr>)))) \<and>
   db_file_state (snd (snd (Append toy_primitives ''x'' (TestFSWritableFile_new ''/db/a.log'' False)
          (ResetState (quiet_fs\<lparr>open_managed_files := {''/db/a.log''}\<rparr>))))) ''/db/a.log'' =
     Some \<lparr>filename = ''/db/a.log'', pos = 1, pos_at_last_sync = -1, pos_at_last_flush = -1,
           buffer = ''x''\<rparr> \<and>
   db_file_state (snd (snd (Close OK OK (TestFSWritableFile_new ''/db/a.log'' False)
          (ResetState (quiet_fs\<lparr>open_managed_files := {''/db/a.log''}\<rparr>))))) ''/db/a.log'' =
     Some \<lparr>filename = ''/db/a.log'', pos = 0, pos_at_last_sync = -1, pos_at_last_flush = -1,
           buffer = []\<rparr>"
proof -
  let ?fs = "quiet_fs\<lparr>open_managed_files := {''/db/a.log''}\<rparr>"
  let ?w = "TestFSWritableFile_new ''/db/a.log'' False"
  have n: "filename (state ?w) = ''/db/a.log''"
    by (simp add: TestFSWritableFile_new_def FSFileState_new_def)
  have a: "''/db/a.log'' \<in> open_managed_files ?fs"
    by simp
  have b: "\<not> target_use_direct_io ?w"
    by (simp add: TestFSWritableFile_new_def)
  have c: "ok (fst (Close OK OK ?w (ResetState ?fs)))"
    by (simp add: Close_def Let_def ResetState_def SetFilesystemActiveNoLock_def
        IsFilesystemActive_def quiet_fs_def InjectMetadataWriteError_def WritableFileClosed_def
        TestFSWritableFile_new_def FSFileState_new_def call_target_def ok_def OK_def)
  have d: "state (fst (snd (Append toy_primitives ''x'' ?w (ResetState ?fs)))) =
      \<lparr>filename = ''/db/a.log'', pos = 1, pos_at_last_sync = -1, pos_at_last_flush = -1, buffer = ''x''\<rparr>"
    by (simp add: Append_def Let_def ResetState_def SetFilesystemActiveNoLock_def
        IsFilesystemActive_def quiet_fs_def InjectWriteError_def WritableFileAppended_def
        TestFSWritableFile_new_def FSFileState_new_def)
  have e: "state (fst (snd (Close OK OK ?w (ResetState ?fs)))) =
      \<lparr>filename = ''/db/a.log'', pos = 0, pos_at_last_sync = -1, pos_at_last_flush = -1, buffer = []\<rparr>"
    by (simp add: Close_def Let_def ResetState_def SetFilesystemActiveNoLock_def
        IsFilesystemActive_def quiet_fs_def InjectMetadataWriteError_def WritableFileClosed_def
        TestFSWritableFile_new_def FSFileState_new_def call_target_def ok_def OK_def)
  show ?thesis
    using a b c d e n
      ResetState_keeps_open_files [of ?fs ?w toy_primitives "''x''" OK OK]
    by simp
qed

text \<open>
  C6. The specification states that after the delegation every sub-request whose status is
  OK gets an injection call with \<^verbatim>\<open>kMultiReadSingleReq\<close>, and that exactly one trailing
  call with \<^verbatim>\<open>kMultiRead\<close> follows. The loop of \<^verbatim>\<open>DoMultiRead\<close> leaves at the first
  sub-request whose status is not OK, so an OK sub-request behind a failed one gets no call
  (first run below: only the trailing call is made); and the trailing call is made only when
  the status of the delegated \<^verbatim>\<open>MultiRead\<close> itself is OK (second run: only the
  sub-request's call is made).
\<close>

theorem DoMultiRead_injection_calls_counterexample:
  "IsFilesystemActive quiet_fs \<and>
   \<not> isl (DoMultiRead (OK,
        [\<lparr>req_offset = 0, req_len = 4, req_scratch = Addr 0, req_result = Slice_default,
          req_status = IOError []\<rparr>,
         \<lparr>req_offset = 4, req_len = 4, req_scratch = Addr 4, req_result = Slice_default,
          req_status = OK\<rparr>], (\<lambda>i. CHR ''a'')) False
        [\<lparr>req_offset = 0, req_len = 4, req_scratch = Addr 0, req_result = Slice_default,
          req_status = OK\<rparr>,
         \<lparr>req_offset = 4, req_len = 4, req_scratch = Addr 4, req_result = Slice_default,
          req_status = OK\<rparr>] [] quiet_fs (\<lambda>i. CHR ''a'')) \<and>
   map call_op (read_injection_calls (fst (snd (snd (snd (projr (DoMultiRead (OK,
        [\<lparr>req_offset = 0, req_len = 4, req_scratch = Addr 0, req_result = Slice_default,
          req_status = IOError []\<rparr>,
         \<lparr>req_offset = 4, req_len = 4, req_scratch = Addr 4, req_result = Slice_default,
          req_status = OK\<rparr>], (\<lambda>i. CHR ''a'')) False
        [\<lparr>req_offset = 0, req_len = 4, req_scratch = Addr 0, req_result = Slice_default,
          req_status = OK\<rparr>,
         \<lparr>req_offset = 4, req_len = 4, req_scratch = Addr 4, req_result = Slice_default,
          req_status = OK\<rparr>] [] quiet_fs (\<lambda>i. CHR ''a''))))))))
     = [kMultiRead] \<and>
   \<not> isl (DoMultiRead (IOError [],
        [\<lparr>req_offset = 0, req_len = 4, req_scratch = Addr 0, req_result = Slice_default,
          req_status = OK\<rparr>], (\<lambda>i. CHR ''a'')) False
        [\<lparr>req_offset = 0, req_len = 4, req_scratch = Addr 0, req_result = Slice_default,
          req_status = OK\<rparr>] [] quiet_fs (\<lambda>i. CHR ''a'')) \<and>
   map call_op (read_injection_calls (fst (snd (snd (snd (projr (DoMultiRead (IOError [],
        [\<lparr>req_offset = 0, req_len = 4, req_scratch = Addr 0, req_result = Slice_default,
          req_status = OK\<rparr>], (\<lambda>i. CHR ''a'')) False
        [\<lparr>req_offset = 0, req_len = 4, req_scratch = Addr 0, req_result = Slice_default,
          req_status = OK\<rparr>] [] quiet_fs (\<lambda>i. CHR ''a''))))))))
     = [kMultiReadSingleReq]"
  by (simp add: DoMultiRead_def Let_def IsFilesystemActive_def quiet_fs_def
      InjectThreadSpecificReadError_def log_injection_def ShouldInjectRandomReadError_def
      ok_def OK_def IOError_def)


text \<open>
  C6, as the code has it. \<^verbatim>\<open>DoMultiRead\<close> on an active facade delegates; then it visits
  the sub-requests in order up to the first one whose status (as delegated) is not OK, and
  makes for each visited one an injection call with \<^verbatim>\<open>kMultiReadSingleReq\<close> and
  \<^verbatim>\<open>need_count_increase = true\<close>; then, when the delegated status is OK, exactly one call
  with \<^verbatim>\<open>kMultiRead\<close> whose \<^verbatim>\<open>need_count_increase\<close> is true exactly when none of the
  calls for the sub-requests has set its fault flag, and no such call otherwise.
\<close>

theorem DoMultiRead_injection_calls:
  assumes "IsFilesystemActive fs"
    and "DoMultiRead (s, reqs1, mem1) direct_io reqs file fs mem = Inr res"
  shows "fst (snd (snd res)) = file @ [File_MultiRead reqs] \<and>
         (\<exists>subs trailing.
            read_injection_calls (fst (snd (snd (snd res)))) = read_injection_calls fs @ subs @ trailing \<and>
            length subs = length (takeWhile (\<lambda>r. ok (req_status r)) reqs1) \<and>
            (\<forall>c\<in>set subs. call_op c = kMultiReadSingleReq \<and> call_need_count_increase c) \<and>
            (if ok s
             then length trailing = 1 \<and> call_op (hd trailing) = kMultiRead \<and>
                  (call_need_count_increase (hd trailing) \<longleftrightarrow>
                     \<not> (\<exists>c\<in>set subs. call_fault_injected c))
             else trailing = []))"
proof -
  obtain s' reqs' file' fs' mem' where res: "res = (s', reqs', file', fs', mem')"
    by (cases res) auto
  show ?thesis
    using DoMultiRead_calls [OF assms(1) assms(2) [unfolded res]] by (simp add: res)
qed


theorem DoMultiRead_injection_calls_witness:
  "IsFilesystemActive quiet_fs \<and>
   DoMultiRead (OK,
        [\<lparr>req_offset = 0, req_len = 4, req_scratch = Addr 0, req_result = Slice_default,
          req_status = OK\<rparr>], (\<lambda>i. CHR ''a'')) False
        [\<lparr>req_offset = 0, req_len = 4, req_scratch = Addr 0, req_result = Slice_default,
          req_status = OK\<rparr>] [] quiet_fs (\<lambda>i. CHR ''a'') =
     Inr (projr (DoMultiRead (OK,
        [\<lparr>req_offset = 0, req_len = 4, req_scratch = Addr 0, req_result = Slice_default,
          req_status = OK\<rparr>], (\<lambda>i. CHR ''a'')) False
        [\<lparr>req_offset = 0, req_len = 4, req_scratch = Addr 0, req_result = Slice_default,
          req_status = OK\<rparr>] [] quiet_fs (\<lambda>i. CHR ''a''))) \<and>
   length (read_injection_calls (fst (snd (snd (snd (projr (DoMultiRead (OK,
        [\<lparr>req_offset = 0, req_len = 4, req_scratch = Addr 0, req_result = Slice_default,
          req_status = OK\<rparr>], (\<lambda>i. CHR ''a'')) False
        [\<lparr>req_offset = 0, req_len = 4, req_scratch = Addr 0, req_result = Slice_default,
          req_status = OK\<rparr>] [] quiet_fs (\<lambda>i. CHR ''a'')))))))) = 2"
proof -
  let ?req = "\<lparr>req_offset = 0, req_len = 4, req_scratch = Addr 0, req_result = Slice_default,
          req_status = OK\<rparr>"
  let ?mem = "\<lambda>i::nat. CHR ''a''"
  let ?run = "DoMultiRead (OK, [?req], ?mem) False [?req] [] quiet_fs ?mem"
  have a: "IsFilesystemActive quiet_fs"
    by (simp add: IsFilesystemActive_def quiet_fs_def)
  have "\<not> isl ?run"
    by (simp add: DoMultiRead_def Let_def IsFilesystemActive_def quiet_fs_def
      InjectThreadSpecificReadError_def log_injection_def ShouldInjectRandomReadError_def
      ok_def OK_def)
  then have b: "?run = Inr (projr ?run)"
    by simp
  have c: "read_injection_calls quiet_fs = []"
    by (simp add: quiet_fs_def)
  have d: "ok OK"
    by (simp add: ok_def OK_def)
  from DoMultiRead_injection_calls [OF a b] obtain subs trailing where
    "read_injection_calls (fst (snd (snd (snd (projr ?run))))) = read_injection_calls quiet_fs @ subs @ trailing"
    "length subs = length (takeWhile (\<lambda>r. ok (req_status r)) [?req])"
    "length trailing = 1"
    using d by auto
  then have "length (read_injection_calls (fst (snd (snd (snd (projr ?run)))))) = 2"
    using c d by simp
  with a b show ?thesis by simp
qed

text \<open>
  C2. The specification states that every intercepted operation, the two reads of a
  sequential file among them, first checks the active flag and returns the sticky error
  without delegating when the flag is cleared. \<^verbatim>\<open>DoRead(FSSequentialFile*)\<close> and
  \<^verbatim>\<open>DoPositionedRead\<close> have no such check: on an inactive facade they call the wrapped
  file and return its status.
\<close>

theorem inactive_gate_counterexample:
  "\<not> IsFilesystemActive (SetFilesystemActiveNoLock False (IOError ''inactive'') quiet_fs) \<and>
   GetError (SetFilesystemActiveNoLock False (IOError ''inactive'') quiet_fs) = IOError ''inactive'' \<and>
   DoRead_Sequential (OK, \<lparr>slice_data = Addr 0, slice_size = 4\<rparr>, (\<lambda>i. CHR ''a'')) 4 []
       (SetFilesystemActiveNoLock False (IOError ''inactive'') quiet_fs) =
     (OK, \<lparr>slice_data = Addr 0, slice_size = 4\<rparr>, [File_SequentialRead 4],
      SetFilesystemActiveNoLock False (IOError ''inactive'') quiet_fs, (\<lambda>i. CHR ''a'')) \<and>
   DoPositionedRead (OK, \<lparr>slice_data = Addr 0, slice_size = 4\<rparr>, (\<lambda>i. CHR ''a'')) 8 4 []
       (SetFilesystemActiveNoLock False (IOError ''inactive'') quiet_fs) =
     (OK, \<lparr>slice_data = Addr 0, slice_size = 4\<rparr>, [File_PositionedRead 8 4],
      SetFilesystemActiveNoLock False (IOError ''inactive'') quiet_fs, (\<lambda>i. CHR ''a'')) \<and>
   OK \<noteq> IOError ''inactive''"
  by (simp add: DoRead_Sequential_def DoPositionedRead_def Let_def SetFilesystemActiveNoLock_def
      IsFilesystemActive_def GetError_def quiet_fs_def ShouldInjectRandomReadError_def
      ok_def OK_def IOError_def)


text \<open>
  C2, as the code has it. While the active flag is cleared, each of these operations
  returns the sticky error, calls nothing and changes nothing: \<^verbatim>\<open>Append\<close> (both),
  \<^verbatim>\<open>PositionedAppend\<close>, \<^verbatim>\<open>Close\<close>, \<^verbatim>\<open>Flush\<close>, \<^verbatim>\<open>Sync\<close> and \<^verbatim>\<open>RangeSync\<close> of a
  writable file; \<^verbatim>\<open>Fsync\<close>, \<^verbatim>\<open>FsyncWithDirOptions\<close> and \<^verbatim>\<open>Close\<close> of a directory;
  \<^verbatim>\<open>DoWrite\<close>, \<^verbatim>\<open>DoRead\<close>, \<^verbatim>\<open>DoClose\<close>, \<^verbatim>\<open>DoFlush\<close> and \<^verbatim>\<open>DoSync\<close> of a
  random-read-write file; \<^verbatim>\<open>DoRead\<close> and \<^verbatim>\<open>DoMultiRead\<close> of a random-access file; and
  \<^verbatim>\<open>NewWritableFile\<close>, \<^verbatim>\<open>ReopenWritableFile\<close>, \<^verbatim>\<open>NewRandomRWFile\<close>,
  \<^verbatim>\<open>NewRandomAccessFile\<close>, \<^verbatim>\<open>NewSequentialFile\<close>, \<^verbatim>\<open>DeleteFile\<close>, \<^verbatim>\<open>RenameFile\<close>
  and \<^verbatim>\<open>LinkFile\<close> of the facade. The two reads of a sequential file have no gate: they
  always delegate, and return the injected \<^verbatim>\<open>IOError\<close> when the status of the wrapped file
  is OK and the random-read-error toggle fires, and the status of the wrapped file otherwise.
  \<^verbatim>\<open>DoReadAsync\<close>, when the sticky error is not an OK status, hands it to the completion
  callback, does not delegate, and returns OK; when the stored error is an OK status it goes
  on as on an active facade, to the random-read-error toggle and then to the delegation.
  \<^verbatim>\<open>NewDirectory\<close>, \<^verbatim>\<open>Poll\<close> and \<^verbatim>\<open>AbortIO\<close> have no gate and always delegate, and
  so does \<^verbatim>\<open>DoGetUniqueId\<close> unless the unique-id-fail toggle is set.
\<close>

theorem inactive_gate:
  assumes "\<not> IsFilesystemActive fs"
  shows "Append P data w fs = (Inr (GetError fs), w, fs) \<and>
         Append_verified P data c w fs = (Inr (GetError fs), w, fs) \<and>
         PositionedAppend P data off c w fs = (Inr (GetError fs), w, fs) \<and>
         Close append_s close_s w fs = (GetError fs, w, fs) \<and>
         Flush w fs = (GetError fs, w, fs) \<and>
         Sync append_s w fs = (GetError fs, w, fs) \<and>
         RangeSync off nbytes append_s w fs = (GetError fs, w, fs) \<and>
         Dir_Fsync_op fsync_s d fs = (GetError fs, d, fs) \<and>
         Dir_FsyncWithDirOptions_op fsync_s d fs = (GetError fs, d, fs) \<and>
         Dir_Close_op close_s d fs = (GetError fs, d) \<and>
         DoWrite write_s off data fobj fs = (GetError fs, fobj) \<and>
         DoRead_RandomRW read_answer off n result fobj fs mem = (GetError fs, result, fobj, mem) \<and>
         DoClose close_s fobj fs = (GetError fs, fobj) \<and>
         DoFlush flush_s fobj fs = (GetError fs, fobj) \<and>
         DoSync sync_s fobj fs = (GetError fs, fobj) \<and>
         DoRead_RandomAccess read_answer direct_io off n result scratch fobj fs mem =
           (Inr (GetError fs), result, fobj, fs, mem) \<and>
         DoMultiRead multi_answer direct_io reqs fobj fs mem = Inr (GetError fs, reqs, fobj, fs, mem) \<and>
         NewWritableFile new_answer use_direct fname fs = (Inr (GetError fs), None, fs) \<and>
         ReopenWritableFile exists_s new_answer use_direct fname fs = (Inr (GetError fs), None, fs) \<and>
         NewRandomRWFile new_s use_direct fname fs = (Inr (GetError fs), fs) \<and>
         NewRandomAccessFile new_s fname fs mem = (Inr (GetError fs), fs) \<and>
         NewSequentialFile new_s fname fs = (GetError fs, fs) \<and>
         DeleteFile delete_s fname fs = (Inr (GetError fs), fs) \<and>
         RenameFile exists_s size_answer read_contents rename_s fname tname fs = (Inr (GetError fs), fs) \<and>
         LinkFile link_s fname tname fs = (Inr (GetError fs), fs) \<and>
         fst (snd (snd (DoRead_Sequential read_answer n fobj fs))) = fobj @ [File_SequentialRead n] \<and>
         fst (snd (snd (DoPositionedRead read_answer off n fobj fs))) = fobj @ [File_PositionedRead off n] \<and>
         fst (DoRead_Sequential read_answer n fobj fs) =
           (if ok (fst read_answer) \<and> fst (ShouldInjectRandomReadError fs)
            then IOError ''Injected seq read error'' else fst read_answer) \<and>
         fst (DoPositionedRead read_answer off n fobj fs) =
           (if ok (fst read_answer) \<and> fst (ShouldInjectRandomReadError fs)
            then IOError ''Injected seq positioned read error'' else fst read_answer) \<and>
         (\<not> ok (GetError fs) \<longrightarrow>
            DoReadAsync async_s direct_io req fobj fs mem = (Inr OK, [GetError fs], fobj, fs, mem)) \<and>
         (ok (GetError fs) \<longrightarrow>
            DoReadAsync async_s direct_io req fobj fs mem =
              (if fst (ShouldInjectRandomReadError fs)
               then (Inr OK, [IOError ''Injected read error''], fobj,
                     snd (ShouldInjectRandomReadError fs), mem)
               else (Inr async_s, [], fobj @ [File_ReadAsync req],
                     snd (ShouldInjectRandomReadError fs), mem))) \<and>
         fs_calls (snd (snd (NewDirectory new_s fname fs))) = fs_calls fs @ [FS_NewDirectory fname] \<and>
         fs_calls (snd (Poll poll_s fs)) = fs_calls fs @ [FS_Poll] \<and>
         fs_calls (snd (AbortIO abort_s fs)) = fs_calls fs @ [FS_AbortIO] \<and>
         (\<not> ShouldFailGetUniqueId fs \<longrightarrow>
            DoGetUniqueId id_answer max_size fobj fs = (id_answer, fobj @ [File_GetUniqueId max_size]))"
proof -
  have wf: "Append P data w fs = (Inr (GetError fs), w, fs)"
    "Append_verified P data c w fs = (Inr (GetError fs), w, fs)"
    "PositionedAppend P data off c w fs = (Inr (GetError fs), w, fs)"
    "Close append_s close_s w fs = (GetError fs, w, fs)"
    "Flush w fs = (GetError fs, w, fs)"
    "Sync append_s w fs = (GetError fs, w, fs)"
    "RangeSync off nbytes append_s w fs = (GetError fs, w, fs)"
    using assms
    by (simp_all add: Append_def Append_verified_def PositionedAppend_def Close_def Flush_def
        Sync_def RangeSync_def)
  have dir: "Dir_Fsync_op fsync_s d fs = (GetError fs, d, fs)"
    "Dir_FsyncWithDirOptions_op fsync_s d fs = (GetError fs, d, fs)"
    "Dir_Close_op close_s d fs = (GetError fs, d)"
    using assms by (simp_all add: Dir_Fsync_op_def Dir_FsyncWithDirOptions_op_def Dir_Close_op_def)
  have files: "DoWrite write_s off data fobj fs = (GetError fs, fobj)"
    "DoRead_RandomRW read_answer off n result fobj fs mem = (GetError fs, result, fobj, mem)"
    "DoClose close_s fobj fs = (GetError fs, fobj)"
    "DoFlush flush_s fobj fs = (GetError fs, fobj)"
    "DoSync sync_s fobj fs = (GetError fs, fobj)"
    "DoRead_RandomAccess read_answer direct_io off n result scratch fobj fs mem =
           (Inr (GetError fs), result, fobj, fs, mem)"
    "DoMultiRead multi_answer direct_io reqs fobj fs mem = Inr (GetError fs, reqs, fobj, fs, mem)"
    using assms
    by (simp_all add: DoWrite_def DoRead_RandomRW_def DoClose_def DoFlush_def DoSync_def
        DoRead_RandomAccess_def DoMultiRead_def)
  have facade: "NewWritableFile new_answer use_direct fname fs = (Inr (GetError fs), None, fs)"
    "ReopenWritableFile exists_s new_answer use_direct fname fs = (Inr (GetError fs), None, fs)"
    "NewRandomRWFile new_s use_direct fname fs = (Inr (GetError fs), fs)"
    "NewRandomAccessFile new_s fname fs mem = (Inr (GetError fs), fs)"
    "NewSequentialFile new_s fname fs = (GetError fs, fs)"
    "DeleteFile delete_s fname fs = (Inr (GetError fs), fs)"
    "RenameFile exists_s size_answer read_contents rename_s fname tname fs = (Inr (GetError fs), fs)"
    "LinkFile link_s fname tname fs = (Inr (GetError fs), fs)"
    using assms
    by (simp_all add: NewWritableFile_def ReopenWritableFile_def NewRandomRWFile_def
        NewRandomAccessFile_def NewSequentialFile_def DeleteFile_def RenameFile_def LinkFile_def)
  have seq: "fst (snd (snd (DoRead_Sequential read_answer n fobj fs))) = fobj @ [File_SequentialRead n]"
    "fst (snd (snd (DoPositionedRead read_answer off n fobj fs))) = fobj @ [File_PositionedRead off n]"
    by (simp_all add: DoRead_Sequential_def DoPositionedRead_def Let_def case_prod_beta)
  have seq_status: "fst (DoRead_Sequential read_answer n fobj fs) =
           (if ok (fst read_answer) \<and> fst (ShouldInjectRandomReadError fs)
            then IOError ''Injected seq read error'' else fst read_answer)"
    "fst (DoPositionedRead read_answer off n fobj fs) =
           (if ok (fst read_answer) \<and> fst (ShouldInjectRandomReadError fs)
            then IOError ''Injected seq positioned read error'' else fst read_answer)"
    by (simp_all add: DoRead_Sequential_def DoPositionedRead_def Let_def case_prod_beta)
  have async: "\<not> ok (GetError fs) \<longrightarrow>
      DoReadAsync async_s direct_io req fobj fs mem = (Inr OK, [GetError fs], fobj, fs, mem)"
    using assms by (simp add: DoReadAsync_def)
  have async_ok: "ok (GetError fs) \<longrightarrow>
      DoReadAsync async_s direct_io req fobj fs mem =
        (if fst (ShouldInjectRandomReadError fs)
         then (Inr OK, [IOError ''Injected read error''], fobj,
               snd (ShouldInjectRandomReadError fs), mem)
         else (Inr async_s, [], fobj @ [File_ReadAsync req],
               snd (ShouldInjectRandomReadError fs), mem))"
    using assms
    by (simp add: DoReadAsync_def Let_def case_prod_beta ok_def IOError_def)
  have ungated: "fs_calls (snd (snd (NewDirectory new_s fname fs))) = fs_calls fs @ [FS_NewDirectory fname]"
    "fs_calls (snd (Poll poll_s fs)) = fs_calls fs @ [FS_Poll]"
    "fs_calls (snd (AbortIO abort_s fs)) = fs_calls fs @ [FS_AbortIO]"
    "\<not> ShouldFailGetUniqueId fs \<longrightarrow>
       DoGetUniqueId id_answer max_size fobj fs = (id_answer, fobj @ [File_GetUniqueId max_size])"
    by (simp_all add: NewDirectory_def Poll_def AbortIO_def DoGetUniqueId_def call_fs_def Let_def)
  show ?thesis
    using wf dir files facade seq seq_status async async_ok ungated by blast
qed


theorem inactive_gate_witness:
  "\<not> IsFilesystemActive (SetFilesystemActiveNoLock False (IOError ''inactive'') quiet_fs) \<and>
   Flush (TestFSWritableFile_new ''/db/a.log'' False)
       (SetFilesystemActiveNoLock False (IOError ''inactive'') quiet_fs) =
     (IOError ''inactive'', TestFSWritableFile_new ''/db/a.log'' False,
      SetFilesystemActiveNoLock False (IOError ''inactive'') quiet_fs) \<and>
   DoWrite OK 0 ''abc'' [] (SetFilesystemActiveNoLock False (IOError ''inactive'') quiet_fs) =
     (IOError ''inactive'', [])"
proof -
  let ?fs = "SetFilesystemActiveNoLock False (IOError ''inactive'') quiet_fs"
  have a: "\<not> IsFilesystemActive ?fs"
    by (simp add: SetFilesystemActiveNoLock_def IsFilesystemActive_def)
  have e: "GetError ?fs = IOError ''inactive''"
    by (simp add: SetFilesystemActiveNoLock_def GetError_def)
  show ?thesis
    using a e inactive_gate [OF a, where w = "TestFSWritableFile_new ''/db/a.log'' False"
        and write_s = OK and off = 0 and data = "''abc''" and fobj = "[]"]
    by simp
qed

text \<open>
  C7. \<^verbatim>\<open>InjectThreadSpecificReadError\<close>: the specification states that for
  \<^verbatim>\<open>kMultiReadSingleReq\<close>, when the 1-in-8 draw does not fire, a 1-in-7 draw on a result
  that lies in \<^verbatim>\<open>scratch\<close>, without direct I/O, increments the last byte of the result in
  place and returns OK. The source does so by
  \<^verbatim>\<open>const_cast<char*>(result->data())[result->size() - 1]++\<close> and does not look at the
  size. On an empty result in \<^verbatim>\<open>scratch\<close> (a sub-request of a \<^verbatim>\<open>MultiRead\<close> at the end of
  the file) there is no last byte, and the index is outside the result: the call does not
  come back with OK and a corrupted last byte, and neither does the \<^verbatim>\<open>DoMultiRead\<close> that
  makes it. Every other part of the statement holds
  (\<open>InjectThreadSpecificReadError_outcomes\<close>).
\<close>

theorem InjectThreadSpecificReadError_empty_result:
  "fst (OneIn (\<lambda>i. 0) 1) \<and>
   \<not> fst (OneIn (\<lambda>i. if i = 0 then 1 else 0) 8) \<and>
   fst (OneIn (snd (OneIn (\<lambda>i. if i = 0 then 1 else 0) 8)) 7) \<and>
   slice_bytes (\<lambda>i. CHR ''a'') \<lparr>slice_data = Addr 10, slice_size = 0\<rparr> = [] \<and>
   fst (InjectThreadSpecificReadError kMultiReadSingleReq
         (Some \<lparr>slice_data = Addr 10, slice_size = 0\<rparr>) False (Addr 10) True
         (quiet_fs\<lparr>thread_local_error := Some \<lparr>rand = (\<lambda>i. 0), enable_error_injection = True,
              one_in = 1, count = 0, ctx_message = []\<rparr>,
            tls_random := (\<lambda>i. if i = 0 then 1 else 0)\<rparr>) (\<lambda>i. CHR ''a''))
     = Inl UndefinedBehaviour \<and>
   DoMultiRead (OK,
        [\<lparr>req_offset = 4096, req_len = 4, req_scratch = Addr 10,
          req_result = \<lparr>slice_data = Addr 10, slice_size = 0\<rparr>, req_status = OK\<rparr>],
        (\<lambda>i. CHR ''a'')) False
        [\<lparr>req_offset = 4096, req_len = 4, req_scratch = Addr 10,
          req_result = Slice_default, req_status = OK\<rparr>] []
        (quiet_fs\<lparr>thread_local_error := Some \<lparr>rand = (\<lambda>i. 0), enable_error_injection = True,
              one_in = 1, count = 0, ctx_message = []\<rparr>,
            tls_random := (\<lambda>i. if i = 0 then 1 else 0)\<rparr>) (\<lambda>i. CHR ''a'')
     = Inl UndefinedBehaviour"
  by (simp add: DoMultiRead_def InjectThreadSpecificReadError_def inject_outcome_def
      corrupt_last_byte_def slice_bytes_def OneIn_def Uniform_def Let_def
      IsFilesystemActive_def quiet_fs_def ok_def OK_def)

theorem InjectThreadSpecificReadError_empty_result_witness:
  "isl (fst (InjectThreadSpecificReadError kMultiReadSingleReq
         (Some \<lparr>slice_data = Addr 10, slice_size = 0\<rparr>) False (Addr 10) True
         (quiet_fs\<lparr>thread_local_error := Some \<lparr>rand = (\<lambda>i. 0), enable_error_injection = True,
              one_in = 1, count = 0, ctx_message = []\<rparr>,
            tls_random := (\<lambda>i. if i = 0 then 1 else 0)\<rparr>) (\<lambda>i. CHR ''a''))) \<and>
   isl (DoMultiRead (OK,
        [\<lparr>req_offset = 4096, req_len = 4, req_scratch = Addr 10,
          req_result = \<lparr>slice_data = Addr 10, slice_size = 0\<rparr>, req_status = OK\<rparr>],
        (\<lambda>i. CHR ''a'')) False
        [\<lparr>req_offset = 4096, req_len = 4, req_scratch = Addr 10,
          req_result = Slice_default, req_status = OK\<rparr>] []
        (quiet_fs\<lparr>thread_local_error := Some \<lparr>rand = (\<lambda>i. 0), enable_error_injection = True,
              one_in = 1, count = 0, ctx_message = []\<rparr>,
            tls_random := (\<lambda>i. if i = 0 then 1 else 0)\<rparr>) (\<lambda>i. CHR ''a''))"
  using InjectThreadSpecificReadError_empty_result by simp

end
